theory Spec2Isabelle
  imports Complex_Main
begin

section \<open>JavaScript values, exceptions and number formatting\<close>

text \<open>
  A thrown JavaScript exception, with its message. \<open>LeafletError\<close> is the plain
  \<open>Error\<close> that the map library throws.
\<close>

datatype error =
    TypeError string
  | ReferenceError string
  | SyntaxError string
  | LeafletError string

fun message :: "error \<Rightarrow> string" where
  "message (TypeError m) = m"
| "message (ReferenceError m) = m"
| "message (SyntaxError m) = m"
| "message (LeafletError m) = m"

text \<open>
  A number-valued property of a payload: \<open>None\<close> is a value that is not a number
  (the property is absent, so it reads as \<open>undefined\<close>, or the result of arithmetic
  on it, \<open>NaN\<close>). Numbers are exact reals: rounding of doubles is not modelled.
\<close>

type_synonym jsnum = "real option"

text \<open>The value of the \<open>error\<close> property of a response body, when it has one.\<close>

datatype jsval = JUndefined | JNull | JBool bool | JNum real | JStr string | JObj

fun truthy :: "jsval \<Rightarrow> bool" where
  "truthy JUndefined = False"
| "truthy JNull = False"
| "truthy (JBool b) = b"
| "truthy (JNum x) = (x \<noteq> 0)"
| "truthy (JStr s) = (s \<noteq> [])"
| "truthy JObj = True"

text \<open>Reading \<open>body.error\<close>: \<open>undefined\<close> when the body has no such property.\<close>

fun error_of :: "jsval option \<Rightarrow> jsval" where
  "error_of None = JUndefined"
| "error_of (Some v) = v"

text \<open>\<open>Math.round\<close>: the nearest integer, ties towards plus infinity.\<close>

definition Math_round :: "real \<Rightarrow> int" where
  "Math_round x = \<lfloor>x + 1 / 2\<rfloor>"

fun digits :: "nat \<Rightarrow> string" where
  "digits n = (if n < 10 then [''0123456789'' ! n] else digits (n div 10) @ [''0123456789'' ! (n mod 10)])"

declare digits.simps [simp del]

text \<open>Decimal rendering of an integer, as string conversion does below \<open>10^21\<close> in magnitude.\<close>

definition int_to_string :: "int \<Rightarrow> string" where
  "int_to_string i = (if i < 0 then ''-'' @ digits (nat (- i)) else digits (nat i))"

text \<open>The string a DOM text property shows for \<open>Math.round(v)\<close>.\<close>

fun rounded_string :: "jsnum \<Rightarrow> string" where
  "rounded_string None = ''NaN''"
| "rounded_string (Some x) = int_to_string (Math_round x)"

text \<open>
  \<open>Number.prototype.toFixed(f)\<close> on a number below \<open>10^21\<close> in magnitude: sign first, then
  the integer \<open>n\<close> nearest to \<open>|x| * 10^f\<close> (the larger on a tie), padded to \<open>f + 1\<close> digits
  and split by the decimal point.
\<close>

definition toFixed :: "nat \<Rightarrow> real \<Rightarrow> string" where
  "toFixed f x =
     (let n = nat \<lfloor>\<bar>x\<bar> * 10 ^ f + 1 / 2\<rfloor>;
          m = digits n;
          m' = replicate (f + 1 - length m) (CHR ''0'') @ m;
          k = length m';
          body = (if f = 0 then m else take (k - f) m' @ ''.'' @ drop (k - f) m')
      in (if x < 0 then ''-'' else '''') @ body)"

text \<open>Calling \<open>v.toFixed(f)\<close> on a property that is not a number throws.\<close>

fun toFixed_of :: "nat \<Rightarrow> jsnum \<Rightarrow> error + string" where
  "toFixed_of f None = Inl (TypeError ''Cannot read properties of undefined (reading toFixed)'')"
| "toFixed_of f (Some x) = Inr (toFixed f x)"

section \<open>Data model\<close>

text \<open>An airport record of \<open>airports.json\<close>.\<close>

record airport =
  code :: string
  lat :: real
  lng :: real
  size_js :: real

text \<open>A marker held by the \<open>airportMarkers\<close> layer group: position and popup text; the icon is fixed.\<close>

record airport_marker =
  am_lat :: real
  am_lng :: real
  am_popup :: string

text \<open>A position reading, as pushed by the server or returned by \<open>/aircraft/position\<close>.\<close>

record position =
  latitude :: jsnum
  longitude :: jsnum
  altitude :: jsnum
  heading :: jsnum
  ground_speed :: jsnum
  aircraft_title :: "string option"
  atc_id :: "string option"

text \<open>The global \<open>aircraftData\<close> object.\<close>

record aircraft_data =
  ad_latitude :: jsnum
  ad_longitude :: jsnum
  ad_altitude :: jsnum
  ad_heading :: jsnum
  ad_groundSpeed :: jsnum
  ad_aircraft :: "string option"
  ad_callsign :: "string option"

datatype subdomains = Names "string list" | Letters string

record tile_options =
  attribution :: string
  maxZoom :: nat
  subdomains :: "subdomains option"
  pane :: "string option"

text \<open>The icon of the aircraft marker: the angle of its \<open>rotate(...)\<close> transform, in degrees.\<close>

datatype icon = DivIcon jsnum

datatype layer_kind =
    TileLayer string tile_options
  | MaplibreGL string string
  | Marker real real icon
  | LayerGroup

text \<open>
  The identity of a layer object: the layer group \<open>airportMarkers\<close>, created once when
  the script loads, or the \<open>n\<close>-th layer object created afterwards.
\<close>

datatype oid = AirportGroup | Obj nat

text \<open>A layer object: \<open>lid\<close> is its identity, by which the map attaches and removes it.\<close>

record layer =
  lid :: oid
  kind :: layer_kind

record pane_style =
  zIndex :: nat
  pointerEvents :: string

text \<open>
  The map object. \<open>zoomend\<close> is the airport list captured by the registered
  \<open>zoomend\<close> handler, if one is registered. The zoom level is an integer: the map is
  created with the default zoom snap of 1.
\<close>

record lmap =
  layers :: "layer list"
  center :: "real \<times> real"
  zoom :: int
  panes :: "(string \<times> pane_style) list"
  zoomControl_position :: string
  zoomend :: "airport list option"

record socket_io =
  connected :: bool

datatype level = Log | Warn | Err

datatype logarg =
    ArgPosition position
  | ArgType "string option"
  | ArgValue jsval
  | ArgError error

type_synonym console_entry = "level \<times> string \<times> logarg"

datatype http_method = GET | POST

type_synonym request = "http_method \<times> string"

text \<open>
  What an awaited \<open>fetch(...)\<close> followed by \<open>response.json()\<close> yields: \<open>Failed e\<close> when
  either rejects (network failure, body that does not parse), otherwise the body: its
  \<open>error\<close> property, if any, and the rest of it.
\<close>

datatype 'a response = Failed error | Body "jsval option" 'a

text \<open>
  The page elements the scripts touch. The scripts test the four position inputs for
  presence before writing them, so they are optional; every other element is
  dereferenced unguarded and exists.
\<close>

record dom =
  status :: string
  status_dot_background :: string
  status_text :: string
  connect_btn_disabled :: bool
  disconnect_btn_disabled :: bool
  realtime_indicator_display :: string
  latField :: "string option"
  lngField :: "string option"
  altField :: "string option"
  hdgField :: "string option"

text \<open>
  All state of the page: the module variables of both scripts, the globals they share,
  the page elements, and the effects that leave the page (console output, HTTP requests
  issued), newest last. \<open>airports_global\<close> is the binding that the free identifier
  \<open>airports\<close> of \<open>changeMapLayer\<close> resolves to, if any script declares one.
  The globals \<open>aircraftData\<close> and \<open>aircraftMarker\<close> are declared outside these sources
  and are taken to exist. \<open>infoPanel\<close> is whatever \<open>showAircraftInfo\<close> maintains.
  \<open>next_id\<close> numbers the layer objects created so far.
\<close>

record 'p state =
  socket :: "socket_io option"
  autoUpdateEnabled :: bool
  isSimConnectConnected :: bool
  map_js :: "lmap option"
  currentBaseLayer :: "layer option"
  currentOverlayLayer :: "layer option"
  airportMarkers :: "airport_marker list"
  airports_global :: "airport list option"
  aircraftData :: aircraft_data
  aircraftMarker :: "layer option"
  page :: dom
  infoPanel :: 'p
  console :: "console_entry list"
  requests :: "request list"
  next_id :: nat

section \<open>Statements that may throw\<close>

text \<open>
  A statement runs on the state and completes normally (\<open>None\<close>) or by throwing; what it
  wrote before throwing stays written.
\<close>

type_synonym 'p stmt = "'p state \<Rightarrow> error option \<times> 'p state"

definition normal :: "'p stmt" where
  "normal s = (None, s)"

definition throw :: "error \<Rightarrow> 'p stmt" where
  "throw e s = (Some e, s)"

definition assign :: "('p state \<Rightarrow> 'p state) \<Rightarrow> 'p stmt" where
  "assign f s = (None, f s)"

definition seq :: "'p stmt \<Rightarrow> 'p stmt \<Rightarrow> 'p stmt" where
  "seq c d s = (case c s of (None, s') \<Rightarrow> d s' | (Some e, s') \<Rightarrow> (Some e, s'))"

fun block :: "'p stmt list \<Rightarrow> 'p stmt" where
  "block [] = normal"
| "block (c # cs) = seq c (block cs)"

definition try_catch :: "'p stmt \<Rightarrow> (error \<Rightarrow> 'p stmt) \<Rightarrow> 'p stmt" where
  "try_catch body handler s =
     (case body s of (None, s') \<Rightarrow> (None, s') | (Some e, s') \<Rightarrow> handler e s')"

definition console_out :: "level \<Rightarrow> string \<Rightarrow> logarg \<Rightarrow> 'p stmt" where
  "console_out l label a = assign (\<lambda>s. s\<lparr>console := console s @ [(l, label, a)]\<rparr>)"

definition fetch :: "http_method \<Rightarrow> string \<Rightarrow> 'p stmt" where
  "fetch m url = assign (\<lambda>s. s\<lparr>requests := requests s @ [(m, url)]\<rparr>)"

section \<open>The map script\<close>

datatype status_type = Success | Error | Warning

definition updateStatus :: "string \<Rightarrow> status_type \<Rightarrow> 'p stmt" where
  "updateStatus msg type = assign (\<lambda>s.
     let d = (page s)\<lparr>status := msg\<rparr>;
         d' = (case type of
                 Success \<Rightarrow> d\<lparr>status_dot_background := ''#10b981'', status_text := ''Succeeded''\<rparr>
               | Error \<Rightarrow> d\<lparr>status_dot_background := ''#ef4444'', status_text := ''Failed''\<rparr>
               | Warning \<Rightarrow> d)
     in s\<lparr>page := d'\<rparr>)"

text \<open>\<open>layer.addTo(map)\<close>: a layer already on the map is not added again.\<close>

definition addLayer :: "layer \<Rightarrow> lmap \<Rightarrow> lmap" where
  "addLayer l m = (if lid l \<in> set (map lid (layers m)) then m else m\<lparr>layers := layers m @ [l]\<rparr>)"

definition removeLayer :: "layer \<Rightarrow> lmap \<Rightarrow> lmap" where
  "removeLayer l m = m\<lparr>layers := filter (\<lambda>x. lid x \<noteq> lid l) (layers m)\<rparr>"

text \<open>The layer group \<open>airportMarkers\<close> as a layer of the map; its markers are in the state.\<close>

definition airportMarkers_layer :: layer where
  "airportMarkers_layer = \<lparr>lid = AirportGroup, kind = LayerGroup\<rparr>"

text \<open>The filter callback of \<open>addAirportMarkers\<close>.\<close>

definition zoom_filter :: "int \<Rightarrow> airport \<Rightarrow> bool" where
  "zoom_filter z a =
     (if z < 5 then size_js a = 1
      else if z \<le> 8 then size_js a \<le> 2
      else True)"

definition airport_marker_of :: "airport \<Rightarrow> airport_marker" where
  "airport_marker_of a = \<lparr>am_lat = lat a, am_lng = lng a, am_popup = code a\<rparr>"

definition addAirportMarkers :: "airport list \<Rightarrow> 'p stmt" where
  "addAirportMarkers airports =
     seq (assign (\<lambda>s. s\<lparr>airportMarkers := []\<rparr>))
       (\<lambda>s. case map_js s of
          None \<Rightarrow> throw (TypeError ''Cannot read properties of undefined (reading getZoom)'') s
        | Some m \<Rightarrow>
            let filteredAirports = filter (zoom_filter (zoom m)) airports
            in (None, s\<lparr>airportMarkers := airportMarkers s @ map airport_marker_of filteredAirports,
                       map_js := Some (addLayer airportMarkers_layer m)\<rparr>))"

text \<open>The \<open>zoomend\<close> handler that \<open>initMap\<close> registers, on the airport list it captured.\<close>

definition on_zoomend :: "airport list \<Rightarrow> 'p stmt" where
  "on_zoomend airports =
     seq (addAirportMarkers airports)
       (\<lambda>s. case map_js s of
          None \<Rightarrow> throw (TypeError ''Cannot read properties of undefined (reading getZoom)'') s
        | Some m \<Rightarrow>
            updateStatus (''Updated airport markers for zoom level '' @ int_to_string (zoom m)) Success s)"

text \<open>The copyright sign and the double quote of the attribution texts.\<close>

definition copyright :: string where
  "copyright = [CHR 0xA9]"

definition dquote :: string where
  "dquote = [CHR 0x22]"

definition tomtom_style :: string where
  "tomtom_style = ''https://api.tomtom.com/style/2/custom/style/dG9tdG9tQEBAQ3NzVldyNW9vRE8xNGM4UjtYzY1cmw1O_KElrrp1-a36.json?key=8c6bwORxaSZca2MW4UclcA8gGYt8lbmE''"

definition tomtom_attribution :: string where
  "tomtom_attribution = copyright @ '' TomTom | '' @ copyright @ '' OpenStreetMap contributors''"

definition google_subdomains :: subdomains where
  "google_subdomains = Names [''mt0'', ''mt1'', ''mt2'', ''mt3'']"

text \<open>\<open>map.removeLayer(l)\<close>, \<open>map.createPane\<close> and the like dereference \<open>map\<close>.\<close>

definition with_map :: "string \<Rightarrow> (lmap \<Rightarrow> lmap) \<Rightarrow> 'p stmt" where
  "with_map what f s =
     (case map_js s of
        None \<Rightarrow> throw (TypeError (''Cannot read properties of undefined (reading '' @ what @ '')'')) s
      | Some m \<Rightarrow> (None, s\<lparr>map_js := Some (f m)\<rparr>))"

text \<open>
  \<open>v = L.someLayer(...).addTo(map)\<close>: the layer object is created, then added to the map,
  then assigned; adding to a map that is not there throws before the assignment.
\<close>

definition create_on_map :: "layer_kind \<Rightarrow> (layer \<Rightarrow> 'p state \<Rightarrow> 'p state) \<Rightarrow> 'p stmt" where
  "create_on_map k store s =
     (let l = \<lparr>lid = Obj (next_id s), kind = k\<rparr>;
          s1 = s\<lparr>next_id := Suc (next_id s)\<rparr>
      in case map_js s1 of
           None \<Rightarrow> throw (TypeError ''Cannot read properties of undefined (reading addLayer)'') s1
         | Some m \<Rightarrow> (None, store l (s1\<lparr>map_js := Some (addLayer l m)\<rparr>)))"

definition set_currentBaseLayer :: "layer \<Rightarrow> 'p state \<Rightarrow> 'p state" where
  "set_currentBaseLayer l s = s\<lparr>currentBaseLayer := Some l\<rparr>"

definition set_currentOverlayLayer :: "layer \<Rightarrow> 'p state \<Rightarrow> 'p state" where
  "set_currentOverlayLayer l s = s\<lparr>currentOverlayLayer := Some l\<rparr>"

text \<open>
  \<open>initMap\<close> up to its first \<open>await\<close>. \<open>L.map\<close> refuses a container that already holds a
  map; the new map has no layer, and its zoom control sits top left until moved.
\<close>

definition initMap_start :: "'p stmt" where
  "initMap_start =
     block [
       (\<lambda>s. case map_js s of
          Some m \<Rightarrow> throw (LeafletError ''Map container is already initialized.'') s
        | None \<Rightarrow>
            (None, s\<lparr>map_js := Some \<lparr>layers = [], center = (39.8283, -98.5795), zoom = 4,
                                      panes = [], zoomControl_position = ''topleft'',
                                      zoomend = None\<rparr>\<rparr>)),
       with_map ''createPane''
         (\<lambda>m. m\<lparr>panes := panes m @ [(''labels'', \<lparr>zIndex = 650, pointerEvents = ''none''\<rparr>)]\<rparr>),
       create_on_map (MaplibreGL tomtom_style tomtom_attribution) set_currentBaseLayer,
       with_map ''zoomControl'' (\<lambda>m. m\<lparr>zoomControl_position := ''bottomright''\<rparr>),
       with_map ''addLayer'' (addLayer airportMarkers_layer),
       fetch GET ''airports.json''
     ]"

text \<open>\<open>await\<close> of a request: a failure is thrown where the \<open>await\<close> stands.\<close>

definition await :: "'a response \<Rightarrow> (jsval option \<Rightarrow> 'a \<Rightarrow> 'p stmt) \<Rightarrow> 'p stmt" where
  "await r k = (case r of Failed e \<Rightarrow> throw e | Body err d \<Rightarrow> k err d)"

text \<open>\<open>initMap\<close> from the moment the request for \<open>airports.json\<close> settles.\<close>

definition initMap_loaded :: "airport list response \<Rightarrow> 'p stmt" where
  "initMap_loaded r =
     seq
       (try_catch
          (await r (\<lambda>err airports.
             seq (addAirportMarkers airports)
                 (with_map ''on'' (\<lambda>m. m\<lparr>zoomend := Some airports\<rparr>))))
          (\<lambda>e. updateStatus ''Failed to load airports.json'' Error))
       (updateStatus ''Map loaded successfully'' Success)"

definition initMap :: "airport list response \<Rightarrow> 'p stmt" where
  "initMap r = seq initMap_start (initMap_loaded r)"

text \<open>
  The table of \<open>changeMapLayer\<close>'s \<open>switch\<close> for the selections that fall through to the
  common tail: tile URL and the options handed to \<open>L.tileLayer\<close>
  (\<open>maxZoom\<close> 19 and no further option unless the case sets them).
\<close>

definition tile_source :: "string \<Rightarrow> string \<times> tile_options" where
  "tile_source selectedLayer =
     (if selectedLayer = ''satellite'' then
        (''https://{s}.google.com/vt/lyrs=s&x={x}&y={y}&z={z}'',
         \<lparr>attribution = copyright @ '' Google'', maxZoom = 19,
          subdomains = Some google_subdomains, pane = None\<rparr>)
      else if selectedLayer = ''terrain'' then
        (''https://stamen-tiles-{s}.a.ssl.fastly.net/terrain/{z}/{x}/{y}{r}.png'',
         \<lparr>attribution = ''Map tiles by <a href='' @ dquote @ ''http://stamen.com'' @ dquote
            @ ''>Stamen Design</a>, <a href='' @ dquote
            @ ''http://creativecommons.org/licenses/by/3.0'' @ dquote
            @ ''>CC BY 3.0</a> &mdash; Map data &copy; <a href='' @ dquote
            @ ''https://www.openstreetmap.org/copyright'' @ dquote
            @ ''>OpenStreetMap</a> contributors'',
          maxZoom = 18, subdomains = Some (Letters ''abcd''), pane = None\<rparr>)
      else if selectedLayer = ''topo'' then
        (''https://{s}.tile.opentopomap.org/{z}/{x}/{y}.png'',
         \<lparr>attribution = copyright @ '' OpenTopoMap contributors'', maxZoom = 17,
          subdomains = None, pane = None\<rparr>)
      else if selectedLayer = ''dark'' then
        (''https://{s}.basemaps.cartocdn.com/dark_all/{z}/{x}/{y}{r}.png'',
         \<lparr>attribution = copyright @ '' CARTO'', maxZoom = 19, subdomains = None, pane = None\<rparr>)
      else if selectedLayer = ''hybrid'' then
        (''https://{s}.google.com/vt/lyrs=y&x={x}&y={y}&z={z}'',
         \<lparr>attribution = copyright @ '' Google'', maxZoom = 19,
          subdomains = Some google_subdomains, pane = None\<rparr>)
      else
        (''https://{s}.tile.openstreetmap.org/{z}/{x}/{y}.png'',
         \<lparr>attribution = copyright @ '' OpenStreetMap contributors'', maxZoom = 19,
          subdomains = None, pane = None\<rparr>))"

text \<open>
  \<open>addAirportMarkers(airports)\<close> inside \<open>changeMapLayer\<close>: there \<open>airports\<close> is a free
  identifier (the \<open>const airports\<close> of \<open>initMap\<close> is local to its \<open>try\<close> block), so
  evaluating the argument throws unless some global of that name exists.
\<close>

definition addAirportMarkers_of_global :: "'p stmt" where
  "addAirportMarkers_of_global s =
     (case airports_global s of
        None \<Rightarrow> throw (ReferenceError ''airports is not defined'') s
      | Some airports \<Rightarrow> addAirportMarkers airports s)"

definition remove_if_set :: "('p state \<Rightarrow> layer option) \<Rightarrow> 'p stmt" where
  "remove_if_set var s =
     (case var s of None \<Rightarrow> normal s | Some l \<Rightarrow> with_map ''removeLayer'' (removeLayer l) s)"

text \<open>\<open>changeMapLayer\<close>, on the value of the \<open>mapLayer\<close> select element.\<close>

definition changeMapLayer :: "string \<Rightarrow> 'p stmt" where
  "changeMapLayer selectedLayer =
     block [
       remove_if_set currentBaseLayer,
       remove_if_set currentOverlayLayer,
       assign (\<lambda>s. s\<lparr>currentOverlayLayer := None\<rparr>),
       (if selectedLayer = ''darkHybrid'' then
          block [
            create_on_map
              (TileLayer ''https://{s}.basemaps.cartocdn.com/dark_all/{z}/{x}/{y}{r}.png''
                 \<lparr>attribution = copyright @ '' CARTO | '' @ copyright @ '' Google'', maxZoom = 19,
                  subdomains = None, pane = None\<rparr>)
              set_currentBaseLayer,
            create_on_map
              (TileLayer ''https://{s}.google.com/vt/lyrs=h&x={x}&y={y}&z={z}''
                 \<lparr>attribution = '''', maxZoom = 20,
                  subdomains = Some google_subdomains, pane = Some ''labels''\<rparr>)
              set_currentOverlayLayer,
            addAirportMarkers_of_global,
            updateStatus (''Map layer changed to '' @ selectedLayer) Success
          ]
        else if selectedLayer = ''tomtom'' then
          block [
            create_on_map (MaplibreGL tomtom_style tomtom_attribution) set_currentBaseLayer,
            addAirportMarkers_of_global,
            updateStatus (''Map layer changed to '' @ selectedLayer) Success
          ]
        else
          block [
            create_on_map (TileLayer (fst (tile_source selectedLayer)) (snd (tile_source selectedLayer)))
              set_currentBaseLayer,
            addAirportMarkers_of_global,
            updateStatus (''Map layer changed to '' @ selectedLayer) Success
          ])
     ]"

text \<open>
  A sequence of layer changes, one call per selection. Each call is an event handler of
  its own: an exception ends that call only, and the next one runs on the state it left.
\<close>

fun changeMapLayers :: "string list \<Rightarrow> 'p state \<Rightarrow> 'p state" where
  "changeMapLayers [] s = s"
| "changeMapLayers (sel # sels) s = changeMapLayers sels (snd (changeMapLayer sel s))"

text \<open>
  \<open>fetchAircraftData\<close>, the unconditional poller, given what its two requests yield.
  \<open>base\<close> is the URL prefix: \<open>http://localhost:5000\<close> in one copy of the script, empty in
  the other. The cycle is taken without other callbacks running between its \<open>await\<close>s.
\<close>

definition fetchAircraftData :: "string \<Rightarrow> position response \<Rightarrow> string option response \<Rightarrow> 'p stmt" where
  "fetchAircraftData base positionResponse typeResponse =
     try_catch
       (block [
          fetch GET (base @ ''/aircraft/position''),
          await positionResponse (\<lambda>err positionData.
            if truthy (error_of err)
            then console_out Err ''Position Error:'' (ArgValue (error_of err))
            else console_out Log ''Position:'' (ArgPosition positionData)),
          fetch GET (base @ ''/aircraft/type''),
          await typeResponse (\<lambda>err type.
            if truthy (error_of err)
            then console_out Err ''Type Error:'' (ArgValue (error_of err))
            else console_out Log ''Aircraft Type:'' (ArgType type))
        ])
       (\<lambda>e. console_out Err ''Fetch Error:'' (ArgError e))"

section \<open>The SimConnect script\<close>

text \<open>
  \<open>showAircraftInfo\<close> is defined outside these sources. It is a parameter \<open>info\<close>: from
  the whole state it either throws or yields the new content of the info panel.
\<close>

definition showAircraftInfo :: "('p state \<Rightarrow> error + 'p) \<Rightarrow> 'p stmt" where
  "showAircraftInfo info s =
     (case info s of Inl e \<Rightarrow> throw e s | Inr p \<Rightarrow> (None, s\<lparr>infoPanel := p\<rparr>))"

text \<open>\<open>if (latField) latField.value = positionData.latitude.toFixed(6)\<close>, and so on.\<close>

definition set_latField :: "jsnum \<Rightarrow> 'p stmt" where
  "set_latField v s =
     (case latField (page s) of
        None \<Rightarrow> normal s
      | Some old \<Rightarrow>
          (case toFixed_of 6 v of
             Inl e \<Rightarrow> throw e s
           | Inr t \<Rightarrow> (None, s\<lparr>page := (page s)\<lparr>latField := Some t\<rparr>\<rparr>)))"

definition set_lngField :: "jsnum \<Rightarrow> 'p stmt" where
  "set_lngField v s =
     (case lngField (page s) of
        None \<Rightarrow> normal s
      | Some old \<Rightarrow>
          (case toFixed_of 6 v of
             Inl e \<Rightarrow> throw e s
           | Inr t \<Rightarrow> (None, s\<lparr>page := (page s)\<lparr>lngField := Some t\<rparr>\<rparr>)))"

definition set_altField :: "jsnum \<Rightarrow> 'p stmt" where
  "set_altField v s =
     (case altField (page s) of
        None \<Rightarrow> normal s
      | Some old \<Rightarrow> (None, s\<lparr>page := (page s)\<lparr>altField := Some (rounded_string v)\<rparr>\<rparr>))"

definition set_hdgField :: "jsnum \<Rightarrow> 'p stmt" where
  "set_hdgField v s =
     (case hdgField (page s) of
        None \<Rightarrow> normal s
      | Some old \<Rightarrow> (None, s\<lparr>page := (page s)\<lparr>hdgField := Some (rounded_string v)\<rparr>\<rparr>))"

text \<open>\<open>positionData.atc_id || ''\<close>: an absent or empty call sign reads as the empty string.\<close>

fun or_empty :: "string option \<Rightarrow> string" where
  "or_empty None = ''''"
| "or_empty (Some t) = t"

definition store_aircraftData :: "position \<Rightarrow> 'p stmt" where
  "store_aircraftData positionData =
     assign (\<lambda>s. s\<lparr>aircraftData := (aircraftData s)\<lparr>
       ad_latitude := latitude positionData,
       ad_longitude := longitude positionData,
       ad_altitude := altitude positionData,
       ad_heading := heading positionData,
       ad_groundSpeed := ground_speed positionData,
       ad_aircraft := aircraft_title positionData,
       ad_callsign := Some (or_empty (atc_id positionData))\<rparr>\<rparr>)"

text \<open>
  \<open>updateAircraftMarkerPosition\<close>. \<open>L.marker([lat, lng], ...)\<close> throws on a coordinate that
  is not a number; the exception is caught and logged here.
\<close>

definition updateAircraftMarkerPosition :: "jsnum \<Rightarrow> jsnum \<Rightarrow> jsnum \<Rightarrow> 'p stmt" where
  "updateAircraftMarkerPosition lat' lng' heading' =
     try_catch
       (block [
          (\<lambda>s. case (aircraftMarker s, map_js s) of
             (Some mk, Some m) \<Rightarrow> (None, s\<lparr>map_js := Some (removeLayer mk m)\<rparr>)
           | _ \<Rightarrow> normal s),
          (\<lambda>s. let aircraftIcon = DivIcon (map_option (\<lambda>h. h - 90) heading')
                in case map_js s of
                     None \<Rightarrow> normal s
                   | Some m \<Rightarrow>
                       (case (lat', lng') of
                          (Some la, Some lo) \<Rightarrow>
                            create_on_map (Marker la lo aircraftIcon)
                              (\<lambda>l s'. s'\<lparr>aircraftMarker := Some l\<rparr>) s
                        | _ \<Rightarrow> throw (LeafletError ''Invalid LatLng object'') s))
        ])
       (\<lambda>e. console_out Err ''Error updating aircraft marker:'' (ArgError e))"

text \<open>The status line \<open>Live: lat, lng, alt ft\<close> of a handled update.\<close>

definition live_status :: "position \<Rightarrow> 'p stmt" where
  "live_status positionData s =
     (case toFixed_of 4 (latitude positionData) of
        Inl e \<Rightarrow> throw e s
      | Inr a \<Rightarrow>
          (case toFixed_of 4 (longitude positionData) of
             Inl e \<Rightarrow> throw e s
           | Inr b \<Rightarrow>
               updateStatus (''Live: '' @ a @ '', '' @ b @ '', ''
                             @ rounded_string (altitude positionData) @ ''ft'') Success s))"

definition handleRealtimePositionUpdate :: "('p state \<Rightarrow> error + 'p) \<Rightarrow> position \<Rightarrow> 'p stmt" where
  "handleRealtimePositionUpdate info positionData s =
     (if \<not> autoUpdateEnabled s then normal s
      else
        seq (console_out Log ''Received position update:'' (ArgPosition positionData))
          (try_catch
             (block [
                set_latField (latitude positionData),
                set_lngField (longitude positionData),
                set_altField (altitude positionData),
                set_hdgField (heading positionData),
                store_aircraftData positionData,
                updateAircraftMarkerPosition (latitude positionData) (longitude positionData)
                  (heading positionData),
                showAircraftInfo info,
                live_status positionData
              ])
             (\<lambda>e. seq (console_out Err ''Error handling position update:'' (ArgError e))
                       (updateStatus ''Error processing position data'' Error))) s)"

text \<open>
  The handler that \<open>initWebSocket\<close> registers for \<open>aircraft_position_update\<close>; the payload
  may be missing.
\<close>

definition on_aircraft_position_update :: "('p state \<Rightarrow> error + 'p) \<Rightarrow> position option \<Rightarrow> 'p stmt" where
  "on_aircraft_position_update info data s =
     (case data of
        Some positionData \<Rightarrow>
          if autoUpdateEnabled s then handleRealtimePositionUpdate info positionData s else normal s
      | None \<Rightarrow> normal s)"

text \<open>
  \<open>disconnectSimConnect\<close> from the moment its request settles: \<open>r\<close> is what
  \<open>fetch\<close> and \<open>response.json()\<close> yielded.
\<close>

definition disconnect_settled :: "unit response \<Rightarrow> 'p stmt" where
  "disconnect_settled r =
     try_catch
       (await r (\<lambda>err result.
          block [
            assign (\<lambda>s. s\<lparr>isSimConnectConnected := False\<rparr>),
            assign (\<lambda>s. s\<lparr>page := (page s)\<lparr>connect_btn_disabled := False\<rparr>\<rparr>),
            assign (\<lambda>s. s\<lparr>page := (page s)\<lparr>disconnect_btn_disabled := True\<rparr>\<rparr>),
            assign (\<lambda>s. s\<lparr>page := (page s)\<lparr>realtime_indicator_display := ''none''\<rparr>\<rparr>),
            updateStatus ''Disconnected from SimConnect'' Success,
            console_out Log ''SimConnect disconnected:'' (ArgValue JObj)
          ]))
       (\<lambda>e. seq (updateStatus (''Disconnect error: '' @ message e) Error)
                 (console_out Err ''Disconnect error:'' (ArgError e)))"

definition disconnectSimConnect :: "unit response \<Rightarrow> 'p stmt" where
  "disconnectSimConnect r =
     seq (fetch POST ''/api/simconnect/disconnect'') (disconnect_settled r)"

text \<open>\<open>socket && socket.connected\<close>.\<close>

definition socket_connected :: "'p state \<Rightarrow> bool" where
  "socket_connected s = (case socket s of None \<Rightarrow> False | Some so \<Rightarrow> connected so)"

text \<open>
  \<open>fetchAircraftDataEnhanced\<close>, the fallback poller of this script, given what its two
  requests yield; the cycle is taken without other callbacks running between its
  \<open>await\<close>s.
\<close>

definition fetchAircraftDataEnhanced ::
  "('p state \<Rightarrow> error + 'p) \<Rightarrow> position response \<Rightarrow> string option response \<Rightarrow> 'p stmt" where
  "fetchAircraftDataEnhanced info positionResponse typeResponse s =
     (if socket_connected s then normal s
      else if \<not> isSimConnectConnected s then normal s
      else
        try_catch
          (block [
             fetch GET ''/aircraft/position'',
             await positionResponse (\<lambda>err positionData.
               if truthy (error_of err)
               then console_out Err ''Position Error:'' (ArgValue (error_of err))
               else
                 seq (console_out Log ''Position (legacy):'' (ArgPosition positionData))
                   (\<lambda>s'. if autoUpdateEnabled s'
                          then handleRealtimePositionUpdate info positionData s'
                          else normal s')),
             fetch GET ''/aircraft/type'',
             await typeResponse (\<lambda>err type.
               if truthy (error_of err)
               then console_out Err ''Type Error:'' (ArgValue (error_of err))
               else
                 seq (console_out Log ''Aircraft Type (legacy):'' (ArgType type))
                   (assign (\<lambda>s'. s'\<lparr>aircraftData := (aircraftData s')\<lparr>ad_aircraft := type\<rparr>\<rparr>)))
           ])
          (\<lambda>e. console_out Err ''Legacy fetch error:'' (ArgError e)) s)"

section \<open>Notions of the specification\<close>

text \<open>
  The band rule of the specification: only coarse airports (size 1) below zoom 5, coarse
  and medium ones (size at most 2) from zoom 5 to zoom 8, every airport above.
\<close>

definition band_rule :: "int \<Rightarrow> airport \<Rightarrow> bool" where
  "band_rule z a =
     ((z < 5 \<and> size_js a = 1) \<or> (5 \<le> z \<and> z \<le> 8 \<and> size_js a \<le> 2) \<or> 8 < z)"

text \<open>
  A base layer is a tile or style layer in the map's default pane; an overlay layer is a
  tile layer put into a pane of its own (the \<open>labels\<close> pane).
\<close>

fun is_base_kind :: "layer_kind \<Rightarrow> bool" where
  "is_base_kind (TileLayer url opts) = (pane opts = None)"
| "is_base_kind (MaplibreGL style attr) = True"
| "is_base_kind (Marker la lo i) = False"
| "is_base_kind LayerGroup = False"

fun is_overlay_kind :: "layer_kind \<Rightarrow> bool" where
  "is_overlay_kind (TileLayer url opts) = (pane opts \<noteq> None)"
| "is_overlay_kind (MaplibreGL style attr) = False"
| "is_overlay_kind (Marker la lo i) = False"
| "is_overlay_kind LayerGroup = False"

fun is_marker_kind :: "layer_kind \<Rightarrow> bool" where
  "is_marker_kind (TileLayer url opts) = False"
| "is_marker_kind (MaplibreGL style attr) = False"
| "is_marker_kind (Marker la lo i) = True"
| "is_marker_kind LayerGroup = False"

text \<open>The layers attached to the map, if there is a map.\<close>

definition attached :: "'p state \<Rightarrow> layer list" where
  "attached s = (case map_js s of None \<Rightarrow> [] | Some m \<Rightarrow> layers m)"

definition base_layers :: "'p state \<Rightarrow> layer list" where
  "base_layers s = filter (\<lambda>l. is_base_kind (kind l)) (attached s)"

definition overlay_layers :: "'p state \<Rightarrow> layer list" where
  "overlay_layers s = filter (\<lambda>l. is_overlay_kind (kind l)) (attached s)"

text \<open>
  What a user sees of the aircraft: the four position inputs, and the markers drawn on
  the map (position and icon, without the identity of the marker object); with the stored
  \<open>aircraftData\<close> and the marker that \<open>aircraftMarker\<close> refers to, this is what a position
  update is for.
\<close>

definition shown_fields :: "'p state \<Rightarrow> string option \<times> string option \<times> string option \<times> string option" where
  "shown_fields s = (latField (page s), lngField (page s), altField (page s), hdgField (page s))"

definition markers_on_map :: "'p state \<Rightarrow> layer_kind list" where
  "markers_on_map s = filter is_marker_kind (map kind (attached s))"

definition aircraft_view ::
  "'p state \<Rightarrow> (string option \<times> string option \<times> string option \<times> string option)
     \<times> aircraft_data \<times> layer_kind option \<times> layer_kind list" where
  "aircraft_view s =
     (shown_fields s, aircraftData s, map_option kind (aircraftMarker s), markers_on_map s)"

text \<open>Every layer object on the map was created before now.\<close>

definition ids_created :: "'p state \<Rightarrow> bool" where
  "ids_created s = (\<forall>l \<in> set (attached s). \<forall>n. lid l = Obj n \<longrightarrow> n < next_id s)"

text \<open>
  The console lines a poll cycle is to write for what its two requests yield: one line
  per response, an error line exactly when the body's \<open>error\<close> property is truthy, and
  one line for a failure, after which nothing more is requested.
\<close>

definition response_line :: "string \<Rightarrow> string \<Rightarrow> ('a \<Rightarrow> logarg) \<Rightarrow> jsval option \<Rightarrow> 'a \<Rightarrow> console_entry" where
  "response_line error_label success_label arg err d =
     (if truthy (error_of err) then (Err, error_label, ArgValue (error_of err))
      else (Log, success_label, arg d))"

text \<open>
  The labels of the two pollers: position error, position success, type error, type
  success, failure.
\<close>

type_synonym poll_labels = "string \<times> string \<times> string \<times> string \<times> string"

definition plain_labels :: poll_labels where
  "plain_labels =
     (''Position Error:'', ''Position:'', ''Type Error:'', ''Aircraft Type:'', ''Fetch Error:'')"

definition enhanced_labels :: poll_labels where
  "enhanced_labels =
     (''Position Error:'', ''Position (legacy):'', ''Type Error:'',
      ''Aircraft Type (legacy):'', ''Legacy fetch error:'')"

fun poll_lines ::
  "poll_labels \<Rightarrow> position response \<Rightarrow> string option response \<Rightarrow> console_entry list" where
  "poll_lines (pe, ps, te, ts, fl) (Failed e) r2 = [(Err, fl, ArgError e)]"
| "poll_lines (pe, ps, te, ts, fl) (Body err d) (Failed e) =
     [response_line pe ps ArgPosition err d, (Err, fl, ArgError e)]"
| "poll_lines (pe, ps, te, ts, fl) (Body err d) (Body err' t) =
     [response_line pe ps ArgPosition err d, response_line te ts ArgType err' t]"

text \<open>The requests of a cycle: the type is asked for only once the position has arrived.\<close>

fun poll_requests :: "string \<Rightarrow> 'a response \<Rightarrow> request list" where
  "poll_requests base (Failed e) = [(GET, base @ ''/aircraft/position'')]"
| "poll_requests base (Body err d) =
     [(GET, base @ ''/aircraft/position''), (GET, base @ ''/aircraft/type'')]"

text \<open>The labels of the console lines that \<open>handleRealtimePositionUpdate\<close> writes.\<close>

definition handler_labels :: "string list" where
  "handler_labels =
     [''Received position update:'', ''Error updating aircraft marker:'',
      ''Error handling position update:'']"

text \<open>The lines of a piece of console output that carry one of a poller's labels.\<close>

fun poller_lines :: "poll_labels \<Rightarrow> console_entry list \<Rightarrow> console_entry list" where
  "poller_lines (pe, ps, te, ts, fl) c = filter (\<lambda>x. fst (snd x) \<in> {pe, ps, te, ts, fl}) c"

text \<open>
  What a cycle of the fallback poller is to leave behind, step by step. A request is
  recorded; a line is written. A position body is treated as exactly one of error and
  success: its one line is written, and the reading is applied (when auto-update is on)
  only if the line is the success line. A type body likewise: its one line, and the
  aircraft type stored only on success. A failure writes its one line and ends the
  cycle.
\<close>

definition requested :: "string \<Rightarrow> 'p state \<Rightarrow> 'p state" where
  "requested url s = s\<lparr>requests := requests s @ [(GET, url)]\<rparr>"

definition logged :: "console_entry \<Rightarrow> 'p state \<Rightarrow> 'p state" where
  "logged x s = s\<lparr>console := console s @ [x]\<rparr>"

definition position_handled ::
  "('p state \<Rightarrow> error + 'p) \<Rightarrow> jsval option \<Rightarrow> position \<Rightarrow> 'p state \<Rightarrow> 'p state" where
  "position_handled info err d s =
     (let s1 = logged (response_line ''Position Error:'' ''Position (legacy):'' ArgPosition err d) s
      in if truthy (error_of err) then s1
         else if autoUpdateEnabled s1 then snd (handleRealtimePositionUpdate info d s1)
         else s1)"

definition type_handled :: "jsval option \<Rightarrow> string option \<Rightarrow> 'p state \<Rightarrow> 'p state" where
  "type_handled err t s =
     (let s1 = logged (response_line ''Type Error:'' ''Aircraft Type (legacy):'' ArgType err t) s
      in if truthy (error_of err) then s1
         else s1\<lparr>aircraftData := (aircraftData s1)\<lparr>ad_aircraft := t\<rparr>\<rparr>)"

definition failure_logged :: "error \<Rightarrow> 'p state \<Rightarrow> 'p state" where
  "failure_logged e s = logged (Err, ''Legacy fetch error:'', ArgError e) s"

definition enhanced_cycle ::
  "('p state \<Rightarrow> error + 'p) \<Rightarrow> position response \<Rightarrow> string option response
     \<Rightarrow> 'p state \<Rightarrow> 'p state" where
  "enhanced_cycle info r1 r2 s =
     (if socket_connected s \<or> \<not> isSimConnectConnected s then s
      else
        case r1 of
          Failed e \<Rightarrow> failure_logged e (requested ''/aircraft/position'' s)
        | Body err d \<Rightarrow>
            let s2 = position_handled info err d (requested ''/aircraft/position'' s);
                s3 = requested ''/aircraft/type'' s2
            in case r2 of
                 Failed e \<Rightarrow> failure_logged e s3
               | Body err' t \<Rightarrow> type_handled err' t s3)"

section \<open>Example states\<close>

text \<open>
  The state once both scripts have been read and before any of their callbacks has run,
  for given page elements, \<open>aircraftData\<close> and info panel: no map yet, no socket, no
  global named \<open>airports\<close>.
\<close>

definition page_load :: "dom \<Rightarrow> aircraft_data \<Rightarrow> 'p \<Rightarrow> 'p state" where
  "page_load d ad p =
     \<lparr>socket = None, autoUpdateEnabled = True, isSimConnectConnected = False,
      map_js = None, currentBaseLayer = None, currentOverlayLayer = None,
      airportMarkers = [], airports_global = None, aircraftData = ad,
      aircraftMarker = None, page = d, infoPanel = p, console = [], requests = [],
      next_id = 0\<rparr>"

definition ex_page :: dom where
  "ex_page =
     \<lparr>status = '''', status_dot_background = '''', status_text = '''',
      connect_btn_disabled = False, disconnect_btn_disabled = True,
      realtime_indicator_display = ''none'',
      latField = Some '''', lngField = Some '''', altField = Some '''', hdgField = Some ''''\<rparr>"

definition ex_data :: aircraft_data where
  "ex_data =
     \<lparr>ad_latitude = None, ad_longitude = None, ad_altitude = None, ad_heading = None,
      ad_groundSpeed = None, ad_aircraft = None, ad_callsign = None\<rparr>"

definition ex_state :: "unit state" where
  "ex_state = page_load ex_page ex_data ()"

definition ex_airports :: "airport list" where
  "ex_airports =
     [\<lparr>code = ''KSEA'', lat = 47.45, lng = -122.31, size_js = 1\<rparr>,
      \<lparr>code = ''KBFI'', lat = 47.53, lng = -122.30, size_js = 2\<rparr>,
      \<lparr>code = ''KRNT'', lat = 47.49, lng = -122.22, size_js = 3\<rparr>]"

definition ex_map :: "int \<Rightarrow> lmap" where
  "ex_map z =
     \<lparr>layers = [\<lparr>lid = Obj 0, kind = MaplibreGL tomtom_style tomtom_attribution\<rparr>, airportMarkers_layer],
      center = (39.8283, -98.5795), zoom = z,
      panes = [(''labels'', \<lparr>zIndex = 650, pointerEvents = ''none''\<rparr>)],
      zoomControl_position = ''bottomright'', zoomend = Some ex_airports\<rparr>"

text \<open>A page with its map up at zoom \<open>z\<close>, and with a stale airport marker in the group.\<close>

definition ex_mapped :: "int \<Rightarrow> unit state" where
  "ex_mapped z =
     ex_state\<lparr>map_js := Some (ex_map z),
              currentBaseLayer := Some \<lparr>lid = Obj 0, kind = MaplibreGL tomtom_style tomtom_attribution\<rparr>,
              airportMarkers := [\<lparr>am_lat = 0, am_lng = 0, am_popup = ''OLD''\<rparr>],
              next_id := 1\<rparr>"

text \<open>The same page, connected to the simulator over a connected socket.\<close>

definition ex_connected :: "unit state" where
  "ex_connected = (ex_mapped 4)\<lparr>socket := Some \<lparr>connected = True\<rparr>, isSimConnectConnected := True,
                                 page := ex_page\<lparr>connect_btn_disabled := True, disconnect_btn_disabled := False,
                                                 realtime_indicator_display := ''flex''\<rparr>\<rparr>"

text \<open>The example reading of the specification.\<close>

definition ex_reading :: position where
  "ex_reading =
     \<lparr>latitude = Some 47.6, longitude = Some (-122.3), altitude = Some 1000, heading = Some 90,
      ground_speed = None, aircraft_title = None, atc_id = None\<rparr>"

text \<open>An info panel that shows nothing and never throws.\<close>

definition ex_info :: "unit state \<Rightarrow> error + unit" where
  "ex_info s = Inr ()"

text \<open>The example page after \<open>initMap\<close> has loaded the example airports.\<close>

definition ex_loaded :: "unit state" where
  "ex_loaded = snd (initMap (Body None ex_airports) ex_state)"

text \<open>A page connected to the simulator while no socket is up: the fallback poller polls.\<close>

definition ex_polling :: "unit state" where
  "ex_polling = (ex_mapped 4)\<lparr>isSimConnectConnected := True\<rparr>"

section \<open>Notions used in the proofs\<close>

subsection \<open>Assertions on statements\<close>

text \<open>
  \<open>triple P c Q E\<close>: from a state satisfying \<open>P\<close>, the statement \<open>c\<close> ends in a state
  satisfying \<open>Q\<close> when it completes normally and \<open>E\<close> when it throws.
\<close>

definition triple ::
  "('p state \<Rightarrow> bool) \<Rightarrow> 'p stmt \<Rightarrow> ('p state \<Rightarrow> bool) \<Rightarrow> ('p state \<Rightarrow> bool) \<Rightarrow> bool" where
  "triple P c Q E =
     (\<forall>s. P s \<longrightarrow> (case c s of (None, s') \<Rightarrow> Q s' | (Some e, s') \<Rightarrow> E s'))"

text \<open>Invariants: kept whether the statement completes or throws.\<close>

definition preserves :: "('p state \<Rightarrow> bool) \<Rightarrow> 'p stmt \<Rightarrow> bool" where
  "preserves I c = triple I c I I"

subsection \<open>The invariant of the map's layers\<close>

text \<open>
  Layer objects on the map are pairwise distinct and were created before now; a base
  layer on the map is the one \<open>currentBaseLayer\<close> refers to, an overlay layer on the map
  is the one \<open>currentOverlayLayer\<close> refers to.
\<close>

definition layers_inv :: "'p state \<Rightarrow> bool" where
  "layers_inv s =
     (distinct (map lid (attached s))
      \<and> (\<forall>l \<in> set (attached s).
           (\<forall>n. lid l = Obj n \<longrightarrow> n < next_id s)
           \<and> (is_base_kind (kind l) \<longrightarrow> currentBaseLayer s = Some l)
           \<and> (is_overlay_kind (kind l) \<longrightarrow> currentOverlayLayer s = Some l)))"

definition no_base :: "'p state \<Rightarrow> bool" where
  "no_base s = (\<forall>l \<in> set (attached s). \<not> is_base_kind (kind l))"

definition no_overlay :: "'p state \<Rightarrow> bool" where
  "no_overlay s = (\<forall>l \<in> set (attached s). \<not> is_overlay_kind (kind l))"

subsection \<open>The part of the state a position update works on\<close>

text \<open>
  The statements of \<open>handleRealtimePositionUpdate\<close>'s \<open>try\<close> block up to the marker update;
  what follows them (the info panel and the status line) writes elsewhere.
\<close>

definition update_core :: "position \<Rightarrow> 'p stmt" where
  "update_core positionData =
     block [
       set_latField (latitude positionData),
       set_lngField (longitude positionData),
       set_altField (altitude positionData),
       set_hdgField (heading positionData),
       store_aircraftData positionData,
       updateAircraftMarkerPosition (latitude positionData) (longitude positionData)
         (heading positionData)]"

type_synonym update_part =
  "(string option \<times> string option \<times> string option \<times> string option)
     \<times> aircraft_data \<times> layer option \<times> layer list option \<times> nat"

text \<open>What \<open>update_core\<close> reads and writes.\<close>

definition update_state :: "'p state \<Rightarrow> update_part" where
  "update_state s =
     (shown_fields s, aircraftData s, aircraftMarker s, map_option layers (map_js s), next_id s)"

definition unmark :: "layer option \<Rightarrow> layer list \<Rightarrow> layer list" where
  "unmark mk ls = (case mk of None \<Rightarrow> ls | Some l \<Rightarrow> filter (\<lambda>x. lid x \<noteq> lid l) ls)"

definition fixed_text :: "jsnum \<Rightarrow> string option \<Rightarrow> string option" where
  "fixed_text v old = (case v of None \<Rightarrow> old | Some x \<Rightarrow> map_option (\<lambda>t. toFixed 6 x) old)"

definition rounded_text :: "jsnum \<Rightarrow> string option \<Rightarrow> string option" where
  "rounded_text v old = map_option (\<lambda>t. rounded_string v) old"

definition stored_data :: "position \<Rightarrow> aircraft_data \<Rightarrow> aircraft_data" where
  "stored_data positionData ad = ad\<lparr>
       ad_latitude := latitude positionData,
       ad_longitude := longitude positionData,
       ad_altitude := altitude positionData,
       ad_heading := heading positionData,
       ad_groundSpeed := ground_speed positionData,
       ad_aircraft := aircraft_title positionData,
       ad_callsign := Some (or_empty (atc_id positionData))\<rparr>"

definition attach :: "layer \<Rightarrow> layer list \<Rightarrow> layer list" where
  "attach l ls = (if lid l \<in> set (map lid ls) then ls else ls @ [l])"

definition new_marker :: "nat \<Rightarrow> real \<Rightarrow> real \<Rightarrow> jsnum \<Rightarrow> layer" where
  "new_marker n x y hdg = \<lparr>lid = Obj n, kind = Marker x y (DivIcon (map_option (\<lambda>h. h - 90) hdg))\<rparr>"

text \<open>The state after the four inputs and \<open>aircraftData\<close> are written.\<close>

definition written :: "position \<Rightarrow> 'p state \<Rightarrow> 'p state" where
  "written pd s =
     s\<lparr>page := (page s)\<lparr>
          latField := fixed_text (latitude pd) (latField (page s)),
          lngField := fixed_text (longitude pd) (lngField (page s)),
          altField := rounded_text (altitude pd) (altField (page s)),
          hdgField := rounded_text (heading pd) (hdgField (page s))\<rparr>,
       aircraftData := stored_data pd (aircraftData s)\<rparr>"

text \<open>
  The effect of \<open>update_core\<close> on that part, as a function: nothing when the latitude
  cannot be formatted, the latitude input only when the longitude cannot, otherwise the
  four inputs, the stored data and the marker.
\<close>

definition core_effect :: "position \<Rightarrow> update_part \<Rightarrow> update_part" where
  "core_effect pd w =
     (case w of ((a, b, c, d), ad, mk, ls, n) \<Rightarrow>
        if a \<noteq> None \<and> latitude pd = None then w
        else if b \<noteq> None \<and> longitude pd = None
        then ((fixed_text (latitude pd) a, b, c, d), ad, mk, ls, n)
        else
          let f = (fixed_text (latitude pd) a, fixed_text (longitude pd) b,
                   rounded_text (altitude pd) c, rounded_text (heading pd) d);
              ad' = stored_data pd ad
          in case ls of
               None \<Rightarrow> (f, ad', mk, None, n)
             | Some L \<Rightarrow>
                 (case (latitude pd, longitude pd) of
                    (Some x, Some y) \<Rightarrow>
                      (f, ad', Some (new_marker n x y (heading pd)),
                       Some (attach (new_marker n x y (heading pd)) (unmark mk L)), Suc n)
                  | _ \<Rightarrow> (f, ad', mk, Some (unmark mk L), n)))"

text \<open>\<open>aircraft_view\<close> read off that part.\<close>

definition view_of ::
  "update_part \<Rightarrow> (string option \<times> string option \<times> string option \<times> string option)
     \<times> aircraft_data \<times> layer_kind option \<times> layer_kind list" where
  "view_of w =
     (case w of (f, ad, mk, ls, n) \<Rightarrow>
        (f, ad, map_option kind mk,
         filter is_marker_kind (map kind (case ls of None \<Rightarrow> [] | Some L \<Rightarrow> L))))"

definition fresh_for :: "nat \<Rightarrow> layer list \<Rightarrow> bool" where
  "fresh_for n L = (\<forall>l \<in> set L. \<forall>k. lid l = Obj k \<longrightarrow> k < n)"

section \<open>Auxiliary facts\<close>

lemmas stmt_defs =
  normal_def throw_def assign_def seq_def try_catch_def console_out_def fetch_def await_def

lemma zoom_filter_band_rule: "zoom_filter z a = band_rule z a"
  by (auto simp: zoom_filter_def band_rule_def)

subsection \<open>Rules for assertions on statements\<close>

lemma tripleI:
  assumes "\<And>s s'. P s \<Longrightarrow> c s = (None, s') \<Longrightarrow> Q s'"
    and "\<And>s e s'. P s \<Longrightarrow> c s = (Some e, s') \<Longrightarrow> E s'"
  shows "triple P c Q E"
  unfolding triple_def using assms by (auto split: prod.splits option.splits)

lemma tripleD_normal: "triple P c Q E \<Longrightarrow> P s \<Longrightarrow> c s = (None, s') \<Longrightarrow> Q s'"
  unfolding triple_def by fastforce

lemma tripleD_thrown: "triple P c Q E \<Longrightarrow> P s \<Longrightarrow> c s = (Some e, s') \<Longrightarrow> E s'"
  unfolding triple_def by fastforce

lemma triple_snd: "triple P c Q Q \<Longrightarrow> P s \<Longrightarrow> Q (snd (c s))"
  unfolding triple_def by (fastforce split: prod.splits option.splits)

lemma triple_normal: "triple P normal P E"
  by (rule tripleI) (auto simp: normal_def)

lemma triple_throw: "triple P (throw e) Q P"
  by (rule tripleI) (auto simp: throw_def)

lemma triple_assign: "(\<And>s. P s \<Longrightarrow> Q (f s)) \<Longrightarrow> triple P (assign f) Q E"
  by (rule tripleI) (auto simp: assign_def)

lemma triple_seq:
  assumes "triple P c R E" and "triple R d Q E"
  shows "triple P (seq c d) Q E"
proof (rule tripleI)
  fix s s' assume P: "P s" and r: "seq c d s = (None, s')"
  from r obtain s1 where c: "c s = (None, s1)" and d: "d s1 = (None, s')"
    by (auto simp: seq_def split: prod.splits option.splits)
  from tripleD_normal [OF assms(1) P c] have "R s1" .
  from tripleD_normal [OF assms(2) this d] show "Q s'" .
next
  fix s e s' assume P: "P s" and r: "seq c d s = (Some e, s')"
  show "E s'"
  proof (cases "c s")
    case (Pair o1 s1)
    show ?thesis
    proof (cases o1)
      case None
      with Pair r have d: "d s1 = (Some e, s')" by (simp add: seq_def)
      from None Pair tripleD_normal [OF assms(1) P] have "R s1" by simp
      from tripleD_thrown [OF assms(2) this d] show ?thesis .
    next
      case (Some e1)
      with Pair r have "s' = s1" by (simp add: seq_def)
      with Some Pair tripleD_thrown [OF assms(1) P] show ?thesis by simp
    qed
  qed
qed

lemma triple_try_catch:
  assumes "triple P c Q R" and "\<And>e. triple R (h e) Q E"
  shows "triple P (try_catch c h) Q E"
proof (rule tripleI)
  fix s s' assume P: "P s" and r: "try_catch c h s = (None, s')"
  show "Q s'"
  proof (cases "c s")
    case (Pair o1 s1)
    show ?thesis
    proof (cases o1)
      case None
      with Pair r have "s' = s1" by (simp add: try_catch_def)
      with None Pair tripleD_normal [OF assms(1) P] show ?thesis by simp
    next
      case (Some e1)
      with Pair r have hh: "h e1 s1 = (None, s')" by (simp add: try_catch_def)
      from Some Pair tripleD_thrown [OF assms(1) P] have "R s1" by simp
      from tripleD_normal [OF assms(2) this hh] show ?thesis .
    qed
  qed
next
  fix s e s' assume P: "P s" and r: "try_catch c h s = (Some e, s')"
  show "E s'"
  proof (cases "c s")
    case (Pair o1 s1)
    show ?thesis
    proof (cases o1)
      case None
      with Pair r show ?thesis by (simp add: try_catch_def)
    next
      case (Some e1)
      with Pair r have hh: "h e1 s1 = (Some e, s')" by (simp add: try_catch_def)
      from Some Pair tripleD_thrown [OF assms(1) P] have "R s1" by simp
      from tripleD_thrown [OF assms(2) this hh] show ?thesis .
    qed
  qed
qed

lemma triple_conseq:
  assumes "triple P' c Q' E'" and "\<And>s. P s \<Longrightarrow> P' s" and "\<And>s. Q' s \<Longrightarrow> Q s" and "\<And>s. E' s \<Longrightarrow> E s"
  shows "triple P c Q E"
  using assms unfolding triple_def by (fastforce split: prod.splits option.splits)

lemma triple_block_Nil: "triple P (block []) P E"
  by (simp add: triple_normal)

lemma triple_block_Cons:
  "triple P c R E \<Longrightarrow> triple R (block cs) Q E \<Longrightarrow> triple P (block (c # cs)) Q E"
  by (simp add: triple_seq)

lemma preserves_snd: "preserves I c \<Longrightarrow> I s \<Longrightarrow> I (snd (c s))"
  unfolding preserves_def by (rule triple_snd)

lemma preserves_normal: "preserves I normal"
  unfolding preserves_def by (rule triple_normal)

lemma preserves_throw: "preserves I (throw e)"
  unfolding preserves_def by (rule triple_throw)

lemma preserves_assign: "(\<And>s. I s \<Longrightarrow> I (f s)) \<Longrightarrow> preserves I (assign f)"
  unfolding preserves_def by (rule triple_assign)

lemma preserves_seq: "preserves I c \<Longrightarrow> preserves I d \<Longrightarrow> preserves I (seq c d)"
  unfolding preserves_def by (rule triple_seq)

lemma preserves_try_catch: "preserves I c \<Longrightarrow> (\<And>e. preserves I (h e)) \<Longrightarrow> preserves I (try_catch c h)"
  unfolding preserves_def by (rule triple_try_catch)

lemma preserves_block: "(\<And>c. c \<in> set cs \<Longrightarrow> preserves I c) \<Longrightarrow> preserves I (block cs)"
  by (induction cs) (auto intro: preserves_normal preserves_seq)

lemma preserves_await:
  "(\<And>err d. preserves I (k err d)) \<Longrightarrow> preserves I (await r k)"
  by (cases r) (auto simp: await_def intro: preserves_throw)

lemma preserves_console_out: "(\<And>s c. I s \<Longrightarrow> I (s\<lparr>console := c\<rparr>)) \<Longrightarrow> preserves I (console_out l lab a)"
  unfolding console_out_def by (rule preserves_assign) simp

lemma preserves_updateStatus: "(\<And>s d. I s \<Longrightarrow> I (s\<lparr>page := d\<rparr>)) \<Longrightarrow> preserves I (updateStatus msg t)"
  unfolding updateStatus_def by (rule preserves_assign) (simp add: Let_def)

lemma preservesI:
  assumes "\<And>s. I s \<Longrightarrow> I (snd (c s))"
  shows "preserves I c"
  unfolding preserves_def triple_def
proof (intro allI impI)
  fix s assume "I s"
  from assms [OF this] show "case c s of (None, s') \<Rightarrow> I s' | (Some e, s') \<Rightarrow> I s'"
    by (cases "c s") (auto split: option.splits)
qed

subsection \<open>The invariant of the map's layers\<close>

lemma distinct_all_equal: "distinct xs \<Longrightarrow> (\<And>x. x \<in> set xs \<Longrightarrow> x = a) \<Longrightarrow> length xs \<le> 1"
proof -
  assume d: "distinct xs" and e: "\<And>x. x \<in> set xs \<Longrightarrow> x = a"
  have "set xs \<subseteq> {a}" using e by auto
  then have "card (set xs) \<le> card {a}" by (intro card_mono) auto
  with d show ?thesis by (simp add: distinct_card)
qed

lemma layers_inv_at_most_one:
  assumes "layers_inv s"
  shows "length (base_layers s) \<le> 1 \<and> length (overlay_layers s) \<le> 1"
proof -
  from assms have d: "distinct (attached s)"
    unfolding layers_inv_def by (simp add: distinct_map)
  have b: "length (base_layers s) \<le> 1"
  proof (cases "currentBaseLayer s")
    case None
    with assms have "base_layers s = []"
      unfolding layers_inv_def base_layers_def by (auto simp: filter_empty_conv)
    then show ?thesis by simp
  next
    case (Some a)
    show ?thesis
    proof (rule distinct_all_equal [where a = a])
      show "distinct (base_layers s)" using d by (simp add: base_layers_def)
      fix x assume "x \<in> set (base_layers s)"
      with assms Some show "x = a" unfolding layers_inv_def base_layers_def by auto
    qed
  qed
  have o: "length (overlay_layers s) \<le> 1"
  proof (cases "currentOverlayLayer s")
    case None
    with assms have "overlay_layers s = []"
      unfolding layers_inv_def overlay_layers_def by (auto simp: filter_empty_conv)
    then show ?thesis by simp
  next
    case (Some a)
    show ?thesis
    proof (rule distinct_all_equal [where a = a])
      show "distinct (overlay_layers s)" using d by (simp add: overlay_layers_def)
      fix x assume "x \<in> set (overlay_layers s)"
      with assms Some show "x = a" unfolding layers_inv_def overlay_layers_def by auto
    qed
  qed
  from b o show ?thesis by simp
qed

text \<open>Removing the tracked base layer leaves no base layer; likewise for the overlay.\<close>

lemma remove_base_triple:
  "triple layers_inv (remove_if_set currentBaseLayer) (\<lambda>s. layers_inv s \<and> no_base s) layers_inv"
  by (rule tripleI)
     (auto simp: remove_if_set_def with_map_def stmt_defs layers_inv_def no_base_def attached_def
        removeLayer_def distinct_map_filter split: option.splits)

lemma remove_overlay_triple:
  "triple (\<lambda>s. layers_inv s \<and> no_base s) (remove_if_set currentOverlayLayer)
     (\<lambda>s. layers_inv s \<and> no_base s \<and> no_overlay s) layers_inv"
  by (rule tripleI)
     (auto simp: remove_if_set_def with_map_def stmt_defs layers_inv_def no_base_def no_overlay_def
        attached_def removeLayer_def distinct_map_filter split: option.splits)

lemma clear_overlay_triple:
  "triple (\<lambda>s. layers_inv s \<and> no_base s \<and> no_overlay s)
     (assign (\<lambda>s. s\<lparr>currentOverlayLayer := None\<rparr>))
     (\<lambda>s. layers_inv s \<and> no_base s \<and> no_overlay s) layers_inv"
  by (rule triple_assign) (auto simp: layers_inv_def no_base_def no_overlay_def attached_def)

lemma create_base_triple:
  assumes "is_base_kind k" and "\<not> is_overlay_kind k"
  shows "triple (\<lambda>s. layers_inv s \<and> no_base s \<and> no_overlay s)
           (create_on_map k set_currentBaseLayer)
           (\<lambda>s. layers_inv s \<and> no_overlay s) layers_inv"
  using assms
  by (intro tripleI)
     (auto simp: create_on_map_def set_currentBaseLayer_def stmt_defs layers_inv_def no_base_def
        no_overlay_def attached_def addLayer_def Let_def less_Suc_eq split: option.splits if_splits)

lemma create_overlay_triple:
  assumes "is_overlay_kind k" and "\<not> is_base_kind k"
  shows "triple (\<lambda>s. layers_inv s \<and> no_overlay s)
           (create_on_map k set_currentOverlayLayer)
           layers_inv layers_inv"
  using assms
  by (intro tripleI)
     (auto simp: create_on_map_def set_currentOverlayLayer_def stmt_defs layers_inv_def
        no_overlay_def attached_def addLayer_def Let_def less_Suc_eq split: option.splits if_splits)

lemma addAirportMarkers_inv: "preserves layers_inv (addAirportMarkers airports)"
  unfolding preserves_def
  by (rule tripleI)
     (auto simp: addAirportMarkers_def stmt_defs layers_inv_def attached_def addLayer_def
        airportMarkers_layer_def Let_def split: option.splits if_splits)

lemma addAirportMarkers_of_global_inv: "preserves layers_inv addAirportMarkers_of_global"
proof (rule preservesI)
  fix s :: "'a state" assume inv: "layers_inv s"
  show "layers_inv (snd (addAirportMarkers_of_global s))"
  proof (cases "airports_global s")
    case None
    with inv show ?thesis by (simp add: addAirportMarkers_of_global_def throw_def)
  next
    case (Some airports)
    with preserves_snd [OF addAirportMarkers_inv inv, of airports] show ?thesis
      by (simp add: addAirportMarkers_of_global_def)
  qed
qed

lemma updateStatus_inv: "preserves layers_inv (updateStatus msg t)"
  by (rule preserves_updateStatus) (simp add: layers_inv_def attached_def)

lemma tile_source_pane: "pane (snd (tile_source sel)) = None"
  by (simp add: tile_source_def)

lemma tail_inv:
  "triple layers_inv (block [addAirportMarkers_of_global, updateStatus msg t]) layers_inv layers_inv"
  using preserves_block [of "[addAirportMarkers_of_global, updateStatus msg t]" layers_inv]
    addAirportMarkers_of_global_inv updateStatus_inv
  by (auto simp: preserves_def)

lemma triple_if:
  "(b \<Longrightarrow> triple P c Q E) \<Longrightarrow> (\<not> b \<Longrightarrow> triple P d Q E) \<Longrightarrow> triple P (if b then c else d) Q E"
  by simp

lemma base_branch_inv:
  assumes "is_base_kind k" and "\<not> is_overlay_kind k"
  shows "triple (\<lambda>s. layers_inv s \<and> no_base s \<and> no_overlay s)
           (block [create_on_map k set_currentBaseLayer, addAirportMarkers_of_global, updateStatus msg t])
           layers_inv layers_inv"
proof (rule triple_block_Cons)
  show "triple (\<lambda>s. layers_inv s \<and> no_base s \<and> no_overlay s)
          (create_on_map k set_currentBaseLayer) layers_inv layers_inv"
    by (rule triple_conseq [OF create_base_triple [OF assms]]) auto
  show "triple layers_inv (block [addAirportMarkers_of_global, updateStatus msg t]) layers_inv layers_inv"
    by (rule tail_inv)
qed

lemma overlay_branch_inv:
  assumes "is_base_kind k" and "\<not> is_overlay_kind k" and "is_overlay_kind k'" and "\<not> is_base_kind k'"
  shows "triple (\<lambda>s. layers_inv s \<and> no_base s \<and> no_overlay s)
           (block [create_on_map k set_currentBaseLayer, create_on_map k' set_currentOverlayLayer,
                   addAirportMarkers_of_global, updateStatus msg t])
           layers_inv layers_inv"
proof (rule triple_block_Cons)
  show "triple (\<lambda>s. layers_inv s \<and> no_base s \<and> no_overlay s)
          (create_on_map k set_currentBaseLayer) (\<lambda>s. layers_inv s \<and> no_overlay s) layers_inv"
    by (rule create_base_triple [OF assms(1,2)])
  show "triple (\<lambda>s. layers_inv s \<and> no_overlay s)
          (block [create_on_map k' set_currentOverlayLayer, addAirportMarkers_of_global, updateStatus msg t])
          layers_inv layers_inv"
    by (rule triple_block_Cons [OF create_overlay_triple [OF assms(3,4)] tail_inv])
qed

lemma changeMapLayer_inv: "preserves layers_inv (changeMapLayer sel)"
  unfolding preserves_def changeMapLayer_def
proof (intro triple_block_Cons [OF remove_base_triple] triple_block_Cons [OF remove_overlay_triple]
    triple_block_Cons [OF clear_overlay_triple] triple_block_Cons [OF _ triple_block_Nil])
  show "triple (\<lambda>s. layers_inv s \<and> no_base s \<and> no_overlay s)
     (if sel = ''darkHybrid''
      then block
        [create_on_map
          (TileLayer ''https://{s}.basemaps.cartocdn.com/dark_all/{z}/{x}/{y}{r}.png''
            \<lparr>attribution = copyright @ '' CARTO | '' @ copyright @ '' Google'',
               maxZoom = 19, subdomains = None, pane = None\<rparr>)
          set_currentBaseLayer,
         create_on_map
          (TileLayer ''https://{s}.google.com/vt/lyrs=h&x={x}&y={y}&z={z}''
            \<lparr>attribution = '''', maxZoom = 20, subdomains = Some google_subdomains,
               pane = Some ''labels''\<rparr>)
          set_currentOverlayLayer,
         addAirportMarkers_of_global, updateStatus (''Map layer changed to '' @ sel) Success]
      else if sel = ''tomtom''
        then block
          [create_on_map (MaplibreGL tomtom_style tomtom_attribution) set_currentBaseLayer,
           addAirportMarkers_of_global, updateStatus (''Map layer changed to '' @ sel) Success]
        else block
          [create_on_map (TileLayer (fst (tile_source sel)) (snd (tile_source sel)))
            set_currentBaseLayer,
           addAirportMarkers_of_global, updateStatus (''Map layer changed to '' @ sel) Success])
     layers_inv layers_inv"
    by (intro triple_if overlay_branch_inv base_branch_inv) (simp_all add: tile_source_pane)
qed

lemma changeMapLayers_inv: "layers_inv s \<Longrightarrow> layers_inv (changeMapLayers sels s)"
  by (induction sels arbitrary: s) (auto intro: preserves_snd [OF changeMapLayer_inv])

lemma initMap_start_inv: "triple (\<lambda>s. map_js s = None) initMap_start layers_inv layers_inv"
  by (rule tripleI)
     (auto simp: initMap_start_def stmt_defs with_map_def create_on_map_def set_currentBaseLayer_def
        layers_inv_def attached_def addLayer_def airportMarkers_layer_def Let_def
        split: option.splits if_splits)

lemma with_map_zoomend_inv: "preserves layers_inv (with_map what (\<lambda>m. m\<lparr>zoomend := z\<rparr>))"
  unfolding preserves_def
  by (rule tripleI) (auto simp: with_map_def stmt_defs layers_inv_def attached_def split: option.splits)

lemma initMap_loaded_inv: "preserves layers_inv (initMap_loaded r)"
  unfolding initMap_loaded_def
  by (intro preserves_seq preserves_try_catch preserves_await addAirportMarkers_inv
        with_map_zoomend_inv updateStatus_inv)

lemma initMap_inv: "map_js s = None \<Longrightarrow> layers_inv (snd (initMap r s))"
proof -
  assume m: "map_js s = None"
  have "triple (\<lambda>s. map_js s = None) (initMap r) layers_inv layers_inv"
    unfolding initMap_def
    using initMap_loaded_inv [of r]
    by (intro triple_seq [OF initMap_start_inv]) (simp add: preserves_def)
  from triple_snd [OF this m] show ?thesis .
qed

subsection \<open>The effect of a position update\<close>

lemma seq_assoc: "seq (seq a b) c = seq a (seq b c)"
  by (rule ext) (simp add: seq_def split: prod.splits option.splits)

lemma seq_normal_left: "seq normal c = c"
  by (rule ext) (simp add: seq_def normal_def)

lemma block_append: "block (xs @ ys) = seq (block xs) (block ys)"
  by (induction xs) (simp_all add: seq_normal_left seq_assoc)

lemma set_latField_throws:
  "latField (page s) \<noteq> None \<Longrightarrow>
   set_latField None s = (Some (TypeError ''Cannot read properties of undefined (reading toFixed)''), s)"
  by (cases "latField (page s)") (simp_all add: set_latField_def throw_def)

lemma set_lngField_throws:
  "lngField (page s) \<noteq> None \<Longrightarrow>
   set_lngField None s = (Some (TypeError ''Cannot read properties of undefined (reading toFixed)''), s)"
  by (cases "lngField (page s)") (simp_all add: set_lngField_def throw_def)

lemma set_altField_eq:
  "set_altField v s =
     (None, s\<lparr>page := (page s)\<lparr>altField := map_option (\<lambda>old. rounded_string v) (altField (page s))\<rparr>\<rparr>)"
  by (cases "altField (page s)") (simp_all add: set_altField_def normal_def)

lemma set_hdgField_eq:
  "set_hdgField v s =
     (None, s\<lparr>page := (page s)\<lparr>hdgField := map_option (\<lambda>old. rounded_string v) (hdgField (page s))\<rparr>\<rparr>)"
  by (cases "hdgField (page s)") (simp_all add: set_hdgField_def normal_def)

text \<open>The marker step, by the three ways it can go.\<close>

lemma marker_no_map:
  "map_js s = None \<Longrightarrow> updateAircraftMarkerPosition la lo hdg s = (None, s)"
  by (simp add: updateAircraftMarkerPosition_def stmt_defs Let_def split: option.splits)

lemma marker_invalid:
  assumes "map_js s = Some m" and "la = None \<or> lo = None"
  shows "updateAircraftMarkerPosition la lo hdg s =
           (None, s\<lparr>map_js := Some (m\<lparr>layers := unmark (aircraftMarker s) (layers m)\<rparr>),
                    console := console s @ [(Err, ''Error updating aircraft marker:'',
                                             ArgError (LeafletError ''Invalid LatLng object''))]\<rparr>)"
  using assms
  by (cases "aircraftMarker s"; cases la; cases lo)
     (simp_all add: updateAircraftMarkerPosition_def stmt_defs Let_def unmark_def removeLayer_def)

lemma marker_valid:
  assumes "map_js s = Some m"
  shows "updateAircraftMarkerPosition (Some x) (Some y) hdg s =
           (None, s\<lparr>map_js := Some (addLayer \<lparr>lid = Obj (next_id s),
                                               kind = Marker x y (DivIcon (map_option (\<lambda>h. h - 90) hdg))\<rparr>
                                       (m\<lparr>layers := unmark (aircraftMarker s) (layers m)\<rparr>)),
                    next_id := Suc (next_id s),
                    aircraftMarker := Some \<lparr>lid = Obj (next_id s),
                                            kind = Marker x y (DivIcon (map_option (\<lambda>h. h - 90) hdg))\<rparr>\<rparr>)"
  using assms
  by (cases "aircraftMarker s")
     (simp_all add: updateAircraftMarkerPosition_def stmt_defs Let_def unmark_def removeLayer_def
        create_on_map_def)

lemma set_latField_passes:
  "latField (page s) = None \<or> v \<noteq> None \<Longrightarrow>
   set_latField v s = (None, s\<lparr>page := (page s)\<lparr>latField := fixed_text v (latField (page s))\<rparr>\<rparr>)"
  by (cases v; cases "latField (page s)") (simp_all add: set_latField_def normal_def fixed_text_def)

lemma set_lngField_passes:
  "lngField (page s) = None \<or> v \<noteq> None \<Longrightarrow>
   set_lngField v s = (None, s\<lparr>page := (page s)\<lparr>lngField := fixed_text v (lngField (page s))\<rparr>\<rparr>)"
  by (cases v; cases "lngField (page s)") (simp_all add: set_lngField_def normal_def fixed_text_def)

lemma core_lat_throws:
  assumes "latField (page s) \<noteq> None" and "latitude pd = None"
  shows "snd (update_core pd s) = s"
  using assms by (simp add: update_core_def seq_def set_latField_throws)

lemma core_lng_throws:
  assumes "latField (page s) = None \<or> latitude pd \<noteq> None"
    and "lngField (page s) \<noteq> None" and "longitude pd = None"
  shows "snd (update_core pd s) = s\<lparr>page := (page s)\<lparr>latField := fixed_text (latitude pd) (latField (page s))\<rparr>\<rparr>"
  using assms by (simp add: update_core_def seq_def set_latField_passes set_lngField_throws)

lemma core_passes:
  assumes "latField (page s) = None \<or> latitude pd \<noteq> None"
    and "lngField (page s) = None \<or> longitude pd \<noteq> None"
  shows "update_core pd s =
           updateAircraftMarkerPosition (latitude pd) (longitude pd) (heading pd) (written pd s)"
  using assms
  by (simp add: update_core_def seq_def set_latField_passes set_lngField_passes set_altField_eq
        set_hdgField_eq store_aircraftData_def assign_def written_def rounded_text_def stored_data_def
        normal_def split: prod.splits option.splits)

lemma try_seq_frame:
  assumes "preserves (\<lambda>t. W t = W (snd (c s))) d"
    and "\<And>e. preserves (\<lambda>t. W t = W (snd (c s))) (h e)"
  shows "W (snd (try_catch (seq c d) h s)) = W (snd (c s))"
proof -
  let ?Q = "\<lambda>t. W t = W (snd (c s))"
  have t1: "triple (\<lambda>t. t = s) c ?Q ?Q"
    by (rule tripleI) auto
  have t2: "triple ?Q d ?Q ?Q"
    using assms(1) by (simp add: preserves_def)
  have t3: "triple ?Q (h e) ?Q ?Q" for e
    using assms(2) [of e] by (simp add: preserves_def)
  have "triple (\<lambda>t. t = s) (try_catch (seq c d) h) ?Q ?Q"
    by (rule triple_try_catch [OF triple_seq [OF t1 t2] t3])
  from triple_snd [OF this, of s] show ?thesis by simp
qed

lemma updateStatus_frame: "preserves (\<lambda>t. update_state t = w) (updateStatus msg ty)"
  unfolding updateStatus_def
  by (rule preserves_assign)
     (auto simp: update_state_def shown_fields_def Let_def split: status_type.splits)

lemma console_out_frame: "preserves (\<lambda>t. update_state t = w) (console_out l lab a)"
  by (rule preserves_console_out) (simp add: update_state_def shown_fields_def)

lemma showAircraftInfo_frame: "preserves (\<lambda>t. update_state t = w) (showAircraftInfo info)"
  by (rule preservesI)
     (auto simp: showAircraftInfo_def throw_def update_state_def shown_fields_def split: sum.splits)

lemma live_status_frame: "preserves (\<lambda>t. update_state t = w) (live_status pd)"
proof (rule preservesI)
  fix s :: "'a state" assume w: "update_state s = w"
  show "update_state (snd (live_status pd s)) = w"
    using w preserves_snd [OF updateStatus_frame, of s w]
    by (auto simp: live_status_def throw_def split: sum.splits)
qed

lemma handle_block_split:
  "block [set_latField (latitude positionData), set_lngField (longitude positionData),
          set_altField (altitude positionData), set_hdgField (heading positionData),
          store_aircraftData positionData,
          updateAircraftMarkerPosition (latitude positionData) (longitude positionData)
            (heading positionData),
          showAircraftInfo info, live_status positionData]
   = seq (update_core positionData) (block [showAircraftInfo info, live_status positionData])"
  by (simp add: update_core_def seq_assoc seq_normal_left)

lemma handle_update_state:
  assumes "autoUpdateEnabled s"
  shows "update_state (snd (handleRealtimePositionUpdate info pd s))
       = update_state (snd (update_core pd
           (s\<lparr>console := console s @ [(Log, ''Received position update:'', ArgPosition pd)]\<rparr>)))"
proof -
  let ?s0 = "s\<lparr>console := console s @ [(Log, ''Received position update:'', ArgPosition pd)]\<rparr>"
  let ?h = "\<lambda>e. seq (console_out Err ''Error handling position update:'' (ArgError e))
                    (updateStatus ''Error processing position data'' Error)"
  have h: "handleRealtimePositionUpdate info pd s
         = try_catch (seq (update_core pd) (block [showAircraftInfo info, live_status pd])) ?h ?s0"
    using assms
    unfolding handleRealtimePositionUpdate_def handle_block_split
    by (simp add: seq_def console_out_def assign_def)
  show ?thesis
    unfolding h
    by (rule try_seq_frame)
       (intro preserves_block preserves_seq console_out_frame updateStatus_frame;
        auto intro: showAircraftInfo_frame live_status_frame)+
qed

text \<open>What the handler never touches stays as it is.\<close>

lemma handle_preserves:
  assumes pg: "\<And>s v. I s \<Longrightarrow> I (s\<lparr>page := v\<rparr>)"
    and ad: "\<And>s v. I s \<Longrightarrow> I (s\<lparr>aircraftData := v\<rparr>)"
    and mp: "\<And>s v. I s \<Longrightarrow> I (s\<lparr>map_js := v\<rparr>)"
    and mk: "\<And>s v. I s \<Longrightarrow> I (s\<lparr>aircraftMarker := v\<rparr>)"
    and ni: "\<And>s v. I s \<Longrightarrow> I (s\<lparr>next_id := v\<rparr>)"
    and co: "\<And>s l lab a. lab \<in> set handler_labels \<Longrightarrow> I s
                \<Longrightarrow> I (s\<lparr>console := console s @ [(l, lab, a)]\<rparr>)"
    and ip: "\<And>s v. I s \<Longrightarrow> I (s\<lparr>infoPanel := v\<rparr>)"
  shows "preserves I (handleRealtimePositionUpdate info pd)"
proof -
  have lat: "preserves I (set_latField v)" for v
    by (rule preservesI) (auto simp: set_latField_def stmt_defs pg split: option.splits sum.splits)
  have lng: "preserves I (set_lngField v)" for v
    by (rule preservesI) (auto simp: set_lngField_def stmt_defs pg split: option.splits sum.splits)
  have alt: "preserves I (set_altField v)" for v
    by (rule preservesI) (auto simp: set_altField_def stmt_defs pg split: option.splits)
  have hdg: "preserves I (set_hdgField v)" for v
    by (rule preservesI) (auto simp: set_hdgField_def stmt_defs pg split: option.splits)
  have store: "preserves I (store_aircraftData pd)"
    unfolding store_aircraftData_def by (rule preserves_assign) (rule ad)
  have cons: "preserves I (console_out l lab a)" if "lab \<in> set handler_labels" for l lab a
    unfolding console_out_def by (rule preserves_assign) (rule co [OF that])
  have stat: "preserves I (updateStatus msg ty)" for msg ty
    by (rule preserves_updateStatus) (rule pg)
  have mc: "I (s\<lparr>map_js := v, console := console s @ [(l, lab, a)]\<rparr>)"
    if "I s" and "lab \<in> set handler_labels" for s v l lab a
    using co [OF that(2) mp [OF that(1), of v], of l a] by simp
  have marker: "preserves I (updateAircraftMarkerPosition la lo hdg')" for la lo hdg'
    by (rule preservesI)
       (auto simp: updateAircraftMarkerPosition_def stmt_defs create_on_map_def Let_def mk mp ni co mc
          handler_labels_def split: option.splits prod.splits)
  have info: "preserves I (showAircraftInfo info)"
    by (rule preservesI) (auto simp: showAircraftInfo_def throw_def ip split: sum.splits)
  have live: "preserves I (live_status pd)"
    using stat
    by (intro preservesI) (auto simp: live_status_def throw_def dest: preserves_snd split: sum.splits)
  have body: "preserves I
     (seq (console_out Log ''Received position update:'' (ArgPosition pd))
        (try_catch
           (block [set_latField (latitude pd), set_lngField (longitude pd),
                   set_altField (altitude pd), set_hdgField (heading pd),
                   store_aircraftData pd,
                   updateAircraftMarkerPosition (latitude pd) (longitude pd) (heading pd),
                   showAircraftInfo info, live_status pd])
           (\<lambda>e. seq (console_out Err ''Error handling position update:'' (ArgError e))
                     (updateStatus ''Error processing position data'' Error))))"
    by (intro preserves_seq preserves_try_catch preserves_block cons stat)
       (auto intro: lat lng alt hdg store marker info live simp: handler_labels_def)
  show ?thesis
  proof (rule preservesI)
    fix s assume "I s"
    with preserves_snd [OF body this] show "I (snd (handleRealtimePositionUpdate info pd s))"
      by (simp add: handleRealtimePositionUpdate_def normal_def)
  qed
qed

lemma handle_keeps_toggle:
  "autoUpdateEnabled (snd (handleRealtimePositionUpdate info pd s)) = autoUpdateEnabled s"
  using preserves_snd [OF handle_preserves [of "\<lambda>t. autoUpdateEnabled t = autoUpdateEnabled s" info pd], of s]
  by simp

lemma handle_never_throws: "fst (handleRealtimePositionUpdate info pd s) = None"
  by (simp add: handleRealtimePositionUpdate_def stmt_defs updateStatus_def
        split: prod.splits option.splits)

lemma aircraft_view_of: "aircraft_view s = view_of (update_state s)"
  by (simp add: aircraft_view_def view_of_def update_state_def markers_on_map_def attached_def
        split: option.splits)

lemma core_refines: "update_state (snd (update_core pd s)) = core_effect pd (update_state s)"
proof (cases "latField (page s) \<noteq> None \<and> latitude pd = None")
  case True
  then show ?thesis
    by (simp add: core_lat_throws core_effect_def update_state_def shown_fields_def)
next
  case nolat: False
  show ?thesis
  proof (cases "lngField (page s) \<noteq> None \<and> longitude pd = None")
    case True
    with nolat show ?thesis
      by (auto simp: Let_def core_lng_throws core_effect_def update_state_def shown_fields_def)
  next
    case nolng: False
    from nolat nolng have core:
      "update_core pd s = updateAircraftMarkerPosition (latitude pd) (longitude pd) (heading pd) (written pd s)"
      by (intro core_passes) auto
    show ?thesis
    proof (cases "map_js s")
      case None
      then have "map_js (written pd s) = None" by (simp add: written_def)
      from marker_no_map [OF this] have "snd (update_core pd s) = written pd s"
        by (simp add: core)
      with nolat nolng None show ?thesis
        by (auto simp: Let_def core_effect_def update_state_def shown_fields_def written_def)
    next
      case (Some m)
      then have m: "map_js (written pd s) = Some m" by (simp add: written_def)
      show ?thesis
      proof (cases "latitude pd = None \<or> longitude pd = None")
        case True
        from marker_invalid [OF m True, of "heading pd"]
        have "snd (update_core pd s) =
                (written pd s)\<lparr>map_js := Some (m\<lparr>layers := unmark (aircraftMarker (written pd s)) (layers m)\<rparr>),
                   console := console (written pd s) @ [(Err, ''Error updating aircraft marker:'',
                                             ArgError (LeafletError ''Invalid LatLng object''))]\<rparr>"
          by (simp add: core)
        with nolat nolng Some True show ?thesis
          by (auto simp: Let_def core_effect_def update_state_def shown_fields_def written_def
                split: option.splits)
      next
        case False
        then obtain x y where xy: "latitude pd = Some x" "longitude pd = Some y" by auto
        from marker_valid [OF m, of x y "heading pd"]
        have "snd (update_core pd s) =
                (written pd s)\<lparr>map_js := Some (addLayer (new_marker (next_id (written pd s)) x y (heading pd))
                                       (m\<lparr>layers := unmark (aircraftMarker (written pd s)) (layers m)\<rparr>)),
                    next_id := Suc (next_id (written pd s)),
                    aircraftMarker := Some (new_marker (next_id (written pd s)) x y (heading pd))\<rparr>"
          by (simp add: core xy new_marker_def)
        with nolat nolng Some xy show ?thesis
          by (auto simp: Let_def core_effect_def update_state_def shown_fields_def written_def
                addLayer_def attach_def)
      qed
    qed
  qed
qed

lemma ids_created_fresh:
  "ids_created s = fresh_for (next_id s) (case map_option layers (map_js s) of None \<Rightarrow> [] | Some L \<Rightarrow> L)"
  by (simp add: ids_created_def fresh_for_def attached_def split: option.splits)

lemma fixed_text_idem [simp]: "fixed_text v (fixed_text v a) = fixed_text v a"
  by (cases v; cases a) (simp_all add: fixed_text_def)

lemma fixed_text_None [simp]: "fixed_text v a = None \<longleftrightarrow> a = None"
  by (cases v; cases a) (simp_all add: fixed_text_def)

lemma rounded_text_idem [simp]: "rounded_text v (rounded_text v a) = rounded_text v a"
  by (cases a) (simp_all add: rounded_text_def)

lemma stored_data_idem [simp]: "stored_data pd (stored_data pd ad) = stored_data pd ad"
  by (simp add: stored_data_def)

lemma unmark_idem [simp]: "unmark mk (unmark mk L) = unmark mk L"
  by (cases mk) (simp_all add: unmark_def)

lemma fresh_unmark: "fresh_for n L \<Longrightarrow> fresh_for n (unmark mk L)"
  by (cases mk) (auto simp: unmark_def fresh_for_def)

lemma attach_fresh:
  "fresh_for n L \<Longrightarrow> n \<le> k \<Longrightarrow> attach (new_marker k x y hdg) L = L @ [new_marker k x y hdg]"
proof -
  assume f: "fresh_for n L" and k: "n \<le> k"
  have "lid l \<noteq> Obj k" if "l \<in> set L" for l
  proof
    assume "lid l = Obj k"
    with f that have "k < n" unfolding fresh_for_def by blast
    with k show False by simp
  qed
  then have "Obj k \<notin> set (map lid L)" by (metis imageE list.set_map)
  then show ?thesis by (simp add: attach_def new_marker_def)
qed

lemma unmark_new:
  "fresh_for n L \<Longrightarrow> unmark (Some (new_marker n x y hdg)) (L @ [new_marker n x y hdg]) = L"
proof -
  assume f: "fresh_for n L"
  have "lid l \<noteq> Obj n" if "l \<in> set L" for l
  proof
    assume "lid l = Obj n"
    with f that have "n < n" unfolding fresh_for_def by blast
    then show False by simp
  qed
  then show ?thesis by (simp add: unmark_def new_marker_def filter_id_conv)
qed

lemma kind_new_marker [simp]:
  "kind (new_marker n x y hdg) = Marker x y (DivIcon (map_option (\<lambda>h. h - 90) hdg))"
  by (simp add: new_marker_def)

lemma core_effect_idem:
  assumes "fresh_for n (case ls of None \<Rightarrow> [] | Some L \<Rightarrow> L)"
  shows "view_of (core_effect pd (core_effect pd ((a, b, c, d), ad, mk, ls, n)))
       = view_of (core_effect pd ((a, b, c, d), ad, mk, ls, n))"
proof (cases "a \<noteq> None \<and> latitude pd = None")
  case True
  then show ?thesis by (simp add: core_effect_def)
next
  case nolat: False
  show ?thesis
  proof (cases "b \<noteq> None \<and> longitude pd = None")
    case True
    with nolat show ?thesis by (auto simp: core_effect_def)
  next
    case nolng: False
    show ?thesis
    proof (cases ls)
      case None
      with nolat nolng show ?thesis by (auto simp: core_effect_def Let_def)
    next
      case (Some L)
      with assms have fr: "fresh_for n L" by simp
      show ?thesis
      proof (cases "latitude pd = None \<or> longitude pd = None")
        case True
        with nolat nolng Some show ?thesis
          by (auto simp: core_effect_def Let_def split: option.splits)
      next
        case False
        then obtain x y where xy: "latitude pd = Some x" "longitude pd = Some y" by auto
        let ?U = "unmark mk L"
        have fu: "fresh_for n ?U" by (rule fresh_unmark [OF fr])
        have a1: "attach (new_marker n x y (heading pd)) ?U = ?U @ [new_marker n x y (heading pd)]"
          by (rule attach_fresh [OF fu]) simp
        have a2: "attach (new_marker (Suc n) x y (heading pd)) ?U = ?U @ [new_marker (Suc n) x y (heading pd)]"
          by (rule attach_fresh [OF fu]) simp
        have u: "unmark (Some (new_marker n x y (heading pd))) (?U @ [new_marker n x y (heading pd)]) = ?U"
          by (rule unmark_new [OF fu])
        from xy show ?thesis
          by (simp add: core_effect_def Let_def Some a1 a2 u view_of_def)
      qed
    qed
  qed
qed

lemma handle_core_effect:
  assumes "autoUpdateEnabled s"
  shows "update_state (snd (handleRealtimePositionUpdate info pd s)) = core_effect pd (update_state s)"
proof -
  have "update_state (s\<lparr>console := console s @ [(Log, ''Received position update:'', ArgPosition pd)]\<rparr>)
      = update_state s"
    by (simp add: update_state_def shown_fields_def)
  then show ?thesis
    by (simp only: handle_update_state [OF assms] core_refines)
qed

lemma rounded_1000: "int_to_string (Math_round 1000) = ''1000''"
  by code_simp

subsection \<open>Poll cycles\<close>

lemma handle_console_grows:
  "\<exists>mid. console (snd (handleRealtimePositionUpdate info pd s)) = console s @ mid"
proof -
  have "preserves (\<lambda>t. \<exists>mid. console t = console s @ mid) (handleRealtimePositionUpdate info pd)"
    by (rule handle_preserves) auto
  from preserves_snd [OF this, of s] show ?thesis by simp
qed

lemma handle_keeps_requests:
  "requests (snd (handleRealtimePositionUpdate info pd s)) = requests s"
  using preserves_snd [OF handle_preserves [of "\<lambda>t. requests t = requests s" info pd], of s]
  by simp

lemma plain_poll_result:
  "fetchAircraftData base r1 r2 s =
     (None, s\<lparr>console := console s @ poll_lines plain_labels r1 r2,
              requests := requests s @ poll_requests base r1\<rparr>)"
  by (cases r1; cases r2)
     (simp_all add: fetchAircraftData_def stmt_defs plain_labels_def response_line_def)

lemma enhanced_poll_never_throws: "fst (fetchAircraftDataEnhanced info r1 r2 s) = None"
  by (simp add: fetchAircraftDataEnhanced_def stmt_defs split: prod.splits option.splits)

lemma enhanced_poll_result:
  assumes "\<not> socket_connected s" and "isSimConnectConnected s"
  shows "requests (snd (fetchAircraftDataEnhanced info r1 r2 s)) = requests s @ poll_requests '''' r1
       \<and> (\<exists>mid. console (snd (fetchAircraftDataEnhanced info r1 r2 s))
                  = console s @ take 1 (poll_lines enhanced_labels r1 r2) @ mid
                      @ drop 1 (poll_lines enhanced_labels r1 r2))"
proof (cases r1)
  case (Failed e)
  with assms show ?thesis
    by (simp add: fetchAircraftDataEnhanced_def stmt_defs enhanced_labels_def)
next
  case (Body err d)
  show ?thesis
  proof (cases "truthy (error_of err) \<or> \<not> autoUpdateEnabled s")
    case True
    with assms Body show ?thesis
      by (cases r2) (auto simp: fetchAircraftDataEnhanced_def stmt_defs enhanced_labels_def response_line_def)
  next
    case False
    let ?s1 = "s\<lparr>requests := requests s @ [(GET, ''/aircraft/position'')],
                  console := console s @ [(Log, ''Position (legacy):'', ArgPosition d)]\<rparr>"
    obtain t where t: "handleRealtimePositionUpdate info d ?s1 = (None, t)"
      by (metis handle_never_throws prod.collapse)
    from handle_console_grows [of info d ?s1] t obtain mid where
      c: "console t = console s @ [(Log, ''Position (legacy):'', ArgPosition d)] @ mid"
      by auto
    from handle_keeps_requests [of info d ?s1] t have
      r: "requests t = requests s @ [(GET, ''/aircraft/position'')]"
      by simp
    from assms Body False t c r show ?thesis
      by (cases r2) (simp_all add: fetchAircraftDataEnhanced_def stmt_defs enhanced_labels_def response_line_def)
  qed
qed

lemma await_Failed: "await (Failed e) k s = (Some e, s)"
  by (simp add: await_def throw_def)

lemma position_step:
  "await (Body err d) (\<lambda>err positionData.
       if truthy (error_of err)
       then console_out Err ''Position Error:'' (ArgValue (error_of err))
       else
         seq (console_out Log ''Position (legacy):'' (ArgPosition positionData))
           (\<lambda>s'. if autoUpdateEnabled s'
                  then handleRealtimePositionUpdate info positionData s'
                  else normal s')) s
   = (None, position_handled info err d s)"
proof (cases "truthy (error_of err)")
  case True
  then show ?thesis
    by (simp add: stmt_defs position_handled_def response_line_def logged_def Let_def)
next
  case False
  obtain t where t: "handleRealtimePositionUpdate info d (logged (Log, ''Position (legacy):'', ArgPosition d) s)
                       = (None, t)"
    by (metis handle_never_throws prod.collapse)
  with False show ?thesis
    by (simp add: stmt_defs position_handled_def response_line_def logged_def Let_def)
qed

lemma type_step:
  "await (Body err t) (\<lambda>err type.
       if truthy (error_of err)
       then console_out Err ''Type Error:'' (ArgValue (error_of err))
       else
         seq (console_out Log ''Aircraft Type (legacy):'' (ArgType type))
           (assign (\<lambda>s'. s'\<lparr>aircraftData := (aircraftData s')\<lparr>ad_aircraft := type\<rparr>\<rparr>))) s
   = (None, type_handled err t s)"
  by (simp add: stmt_defs type_handled_def response_line_def logged_def Let_def)

lemma enhanced_poll_exact:
  "fetchAircraftDataEnhanced info r1 r2 s = (None, enhanced_cycle info r1 r2 s)"
proof (cases "socket_connected s \<or> \<not> isSimConnectConnected s")
  case True
  then show ?thesis
    by (auto simp: fetchAircraftDataEnhanced_def enhanced_cycle_def normal_def)
next
  case False
  then show ?thesis
    unfolding fetchAircraftDataEnhanced_def enhanced_cycle_def
    by (cases r1; cases r2)
       (simp_all add: seq_def try_catch_def fetch_def assign_def normal_def console_out_def
          await_Failed position_step type_step requested_def failure_logged_def logged_def Let_def)
qed

lemma handle_console_lines:
  "\<exists>mid. console (snd (handleRealtimePositionUpdate info pd s)) = console s @ mid
         \<and> (\<forall>x \<in> set mid. fst (snd x) \<in> set handler_labels)"
proof -
  have "preserves (\<lambda>t. \<exists>mid. console t = console s @ mid \<and> (\<forall>x \<in> set mid. fst (snd x) \<in> set handler_labels))
          (handleRealtimePositionUpdate info pd)"
    by (rule handle_preserves) auto
  from preserves_snd [OF this, of s] show ?thesis by simp
qed

lemma position_handled_console:
  "\<exists>mid. console (position_handled info err d s)
           = console s @ response_line ''Position Error:'' ''Position (legacy):'' ArgPosition err d # mid
         \<and> (\<forall>x \<in> set mid. fst (snd x) \<in> set handler_labels)"
proof (cases "truthy (error_of err) \<or> \<not> autoUpdateEnabled s")
  case True
  then show ?thesis
    by (auto simp: position_handled_def logged_def Let_def)
next
  case False
  let ?s1 = "logged (response_line ''Position Error:'' ''Position (legacy):'' ArgPosition err d) s"
  from handle_console_lines [of info d ?s1] obtain mid where
    "console (snd (handleRealtimePositionUpdate info d ?s1)) = console ?s1 @ mid"
    "\<forall>x \<in> set mid. fst (snd x) \<in> set handler_labels"
    by blast
  with False show ?thesis
    by (auto simp: position_handled_def logged_def Let_def)
qed

lemma response_line_label:
  "fst (snd (response_line pe ps arg err d)) = (if truthy (error_of err) then pe else ps)"
  by (simp add: response_line_def)

lemma handler_lines_dropped:
  "\<forall>x \<in> set mid. fst (snd x) \<in> set handler_labels \<Longrightarrow> poller_lines enhanced_labels mid = []"
  by (auto simp: enhanced_labels_def handler_labels_def filter_empty_conv)

lemma poller_lines_append:
  "poller_lines labels (xs @ ys) = poller_lines labels xs @ poller_lines labels ys"
  by (cases labels) simp

lemma enhanced_cycle_lines:
  assumes "\<not> socket_connected s" and "isSimConnectConnected s"
  shows "poller_lines enhanced_labels (drop (length (console s)) (console (enhanced_cycle info r1 r2 s)))
       = poll_lines enhanced_labels r1 r2"
proof (cases r1)
  case (Failed e)
  with assms show ?thesis
    by (simp add: enhanced_cycle_def failure_logged_def logged_def requested_def enhanced_labels_def)
next
  case (Body err d)
  let ?s0 = "requested ''/aircraft/position'' s"
  let ?l1 = "response_line ''Position Error:'' ''Position (legacy):'' ArgPosition err d"
  from position_handled_console [of info err d ?s0] obtain mid where
    c: "console (position_handled info err d ?s0) = console s @ ?l1 # mid"
    and h: "\<forall>x \<in> set mid. fst (snd x) \<in> set handler_labels"
    by (auto simp: requested_def)
  have keep1: "poller_lines enhanced_labels [?l1] = [?l1]"
    by (simp add: enhanced_labels_def response_line_label)
  have m: "poller_lines enhanced_labels mid = []"
    by (rule handler_lines_dropped [OF h])
  have "poller_lines enhanced_labels (?l1 # mid @ rest)
          = ?l1 # poller_lines enhanced_labels rest" for rest
    using poller_lines_append [of enhanced_labels "[?l1]" "mid @ rest"]
      poller_lines_append [of enhanced_labels mid rest] keep1 m
    by simp
  with assms Body c show ?thesis
    by (cases r2)
       (simp_all add: enhanced_cycle_def failure_logged_def type_handled_def logged_def requested_def
          Let_def enhanced_labels_def response_line_label)
qed

lemma enhanced_error_body:
  assumes "\<not> socket_connected s" and "isSimConnectConnected s" and "truthy (error_of err)"
  shows "snd (fetchAircraftDataEnhanced info (Body err d) r2 s) =
           (let s3 = s\<lparr>requests := requests s @ [(GET, ''/aircraft/position''), (GET, ''/aircraft/type'')],
                       console := console s @ [(Err, ''Position Error:'', ArgValue (error_of err))]\<rparr>
            in case r2 of Failed e \<Rightarrow> failure_logged e s3 | Body err' t \<Rightarrow> type_handled err' t s3)"
  using assms
  by (cases r2)
     (simp_all add: enhanced_poll_exact enhanced_cycle_def position_handled_def response_line_def
        requested_def logged_def failure_logged_def type_handled_def Let_def)

section \<open>Airport markers\<close>

text \<open>
  C1. On a page whose map exists, \<open>addAirportMarkers\<close> completes normally, and for every
  airport list and every zoom level the markers of the group are then exactly those of
  the airports that satisfy the band rule, in the order of the list. No marker that the
  group held before remains: the group is cleared first. The group is attached to the
  map.
\<close>

theorem addAirportMarkers_band_rule:
  assumes "map_js s = Some m"
  shows "fst (addAirportMarkers airports s) = None
       \<and> airportMarkers (snd (addAirportMarkers airports s))
           = map airport_marker_of (filter (band_rule (zoom m)) airports)
       \<and> AirportGroup \<in> set (map lid (attached (snd (addAirportMarkers airports s))))"
proof -
  have f: "filter (zoom_filter (zoom m)) airports = filter (band_rule (zoom m)) airports"
    by (simp add: zoom_filter_band_rule cong: filter_cong)
  show ?thesis
    using assms
    by (auto simp: addAirportMarkers_def stmt_defs f attached_def addLayer_def airportMarkers_layer_def)
qed

theorem addAirportMarkers_band_rule_witness:
  "map_js (ex_mapped 6) = Some (ex_map 6)
   \<and> airportMarkers (ex_mapped 6) = [\<lparr>am_lat = 0, am_lng = 0, am_popup = ''OLD''\<rparr>]
   \<and> airportMarkers (snd (addAirportMarkers ex_airports (ex_mapped 6)))
       = [\<lparr>am_lat = 47.45, am_lng = -122.31, am_popup = ''KSEA''\<rparr>,
          \<lparr>am_lat = 47.53, am_lng = -122.30, am_popup = ''KBFI''\<rparr>]"
proof -
  have m: "map_js (ex_mapped 6) = Some (ex_map 6)"
    by (simp add: ex_mapped_def)
  have z: "zoom (ex_map 6) = 6"
    by (simp add: ex_map_def)
  show ?thesis
    using addAirportMarkers_band_rule [OF m, of ex_airports] m
    by (simp add: z band_rule_def ex_airports_def airport_marker_of_def ex_mapped_def)
qed

section \<open>Position updates and the auto-update toggle\<close>

text \<open>
  C5. While the auto-update toggle is off, an \<open>aircraft_position_update\<close> event (with
  any payload, or none) leaves the whole state as it was: the position inputs, the stored
  \<open>aircraftData\<close>, the aircraft marker and the map, and \<open>isSimConnectConnected\<close> with the
  buttons. So does a direct call of \<open>handleRealtimePositionUpdate\<close>.
\<close>

theorem position_update_ignored_when_disabled:
  assumes "\<not> autoUpdateEnabled s"
  shows "on_aircraft_position_update info data s = (None, s)
       \<and> handleRealtimePositionUpdate info positionData s = (None, s)"
  using assms
  by (simp add: on_aircraft_position_update_def handleRealtimePositionUpdate_def normal_def
           split: option.splits)

theorem position_update_ignored_when_disabled_witness:
  "\<not> autoUpdateEnabled (ex_connected\<lparr>autoUpdateEnabled := False\<rparr>)
   \<and> on_aircraft_position_update ex_info (Some ex_reading) (ex_connected\<lparr>autoUpdateEnabled := False\<rparr>)
       = (None, ex_connected\<lparr>autoUpdateEnabled := False\<rparr>)"
  using position_update_ignored_when_disabled
    [of "ex_connected\<lparr>autoUpdateEnabled := False\<rparr>" ex_info "Some ex_reading" ex_reading]
  by simp

section \<open>The fallback poller of the SimConnect script\<close>

text \<open>
  C10. While \<open>isSimConnectConnected\<close> is false, a tick of \<open>fetchAircraftDataEnhanced\<close>
  completes normally and leaves the whole state as it was, whatever the server would
  have answered: no request is issued, and no input, stored aircraft data or marker
  changes.
\<close>

theorem enhanced_poll_noop_when_not_connected:
  assumes "\<not> isSimConnectConnected s"
  shows "fetchAircraftDataEnhanced info positionResponse typeResponse s = (None, s)"
  using assms by (simp add: fetchAircraftDataEnhanced_def normal_def)

theorem enhanced_poll_noop_when_not_connected_witness:
  "\<not> isSimConnectConnected (ex_mapped 4)
   \<and> fetchAircraftDataEnhanced ex_info (Body None ex_reading) (Body None (Some ''C172'')) (ex_mapped 4)
       = (None, ex_mapped 4)"
  using enhanced_poll_noop_when_not_connected
    [of "ex_mapped 4" ex_info "Body None ex_reading" "Body None (Some ''C172'')"]
  by (simp add: ex_mapped_def ex_state_def page_load_def)

section \<open>Disconnecting\<close>

text \<open>
  C2 (as amended). For every starting state, \<open>disconnectSimConnect\<close> completes normally.
  When the request yields a response body, whatever it says (a success or an error
  payload), the state is disconnected afterwards: \<open>isSimConnectConnected\<close> is false, the
  disconnect button is disabled and the connect button is enabled. When the request
  fails (network failure, or a body that does not parse), \<open>isSimConnectConnected\<close> and
  both buttons are left as they were.
\<close>

theorem disconnect_forces_disconnected_on_response:
  "fst (disconnectSimConnect (Body err result) s) = None
   \<and> \<not> isSimConnectConnected (snd (disconnectSimConnect (Body err result) s))
   \<and> disconnect_btn_disabled (page (snd (disconnectSimConnect (Body err result) s)))
   \<and> \<not> connect_btn_disabled (page (snd (disconnectSimConnect (Body err result) s)))
   \<and> fst (disconnectSimConnect (Failed e) s) = None
   \<and> isSimConnectConnected (snd (disconnectSimConnect (Failed e) s)) = isSimConnectConnected s
   \<and> disconnect_btn_disabled (page (snd (disconnectSimConnect (Failed e) s)))
       = disconnect_btn_disabled (page s)
   \<and> connect_btn_disabled (page (snd (disconnectSimConnect (Failed e) s)))
       = connect_btn_disabled (page s)"
  by (simp add: disconnectSimConnect_def disconnect_settled_def updateStatus_def stmt_defs)

theorem disconnect_forces_disconnected_on_response_witness:
  "isSimConnectConnected ex_connected
   \<and> \<not> isSimConnectConnected (snd (disconnectSimConnect (Body (Some (JStr ''not connected'')) ()) ex_connected))
   \<and> disconnect_btn_disabled (page (snd (disconnectSimConnect (Body (Some (JStr ''not connected'')) ()) ex_connected)))"
  using disconnect_forces_disconnected_on_response [of "Some (JStr ''not connected'')" "()" ex_connected]
  by (simp add: ex_connected_def)

text \<open>
  C2 as stated fails on a network failure: from the connected example page, a rejected
  request leaves \<open>isSimConnectConnected\<close> true, the disconnect button enabled and the
  connect button disabled.
\<close>

theorem disconnect_network_failure_counterexample:
  "fst (disconnectSimConnect (Failed (TypeError ''Failed to fetch'')) ex_connected) = None
   \<and> isSimConnectConnected (snd (disconnectSimConnect (Failed (TypeError ''Failed to fetch'')) ex_connected))
   \<and> \<not> disconnect_btn_disabled (page (snd (disconnectSimConnect (Failed (TypeError ''Failed to fetch'')) ex_connected)))
   \<and> connect_btn_disabled (page (snd (disconnectSimConnect (Failed (TypeError ''Failed to fetch'')) ex_connected)))"
  by (simp add: disconnectSimConnect_def disconnect_settled_def updateStatus_def stmt_defs
        ex_connected_def ex_page_def)

section \<open>Layer changes\<close>

text \<open>
  C3. On a page without a map yet, after \<open>initMap\<close> (whatever the request for the airport
  list yields) and any finite sequence of \<open>changeMapLayer\<close> calls with arbitrary
  selections, at most one base layer and at most one overlay layer are attached to the
  map. This holds although a call may end by throwing: the layers are exchanged before.
\<close>

theorem at_most_one_base_and_overlay:
  assumes "map_js s = None"
  shows "length (base_layers (changeMapLayers sels (snd (initMap r s)))) \<le> 1
       \<and> length (overlay_layers (changeMapLayers sels (snd (initMap r s)))) \<le> 1"
  by (intro layers_inv_at_most_one changeMapLayers_inv initMap_inv assms)

theorem at_most_one_base_and_overlay_witness:
  "map_js ex_state = None
   \<and> length (base_layers (changeMapLayers [''darkHybrid'', ''satellite'', ''darkHybrid'', ''tomtom'']
                (snd (initMap (Body None ex_airports) ex_state)))) \<le> 1
   \<and> length (overlay_layers (changeMapLayers [''darkHybrid'', ''satellite'', ''darkHybrid'', ''tomtom'']
                (snd (initMap (Body None ex_airports) ex_state)))) \<le> 1"
proof -
  have m: "map_js ex_state = None"
    by (simp add: ex_state_def page_load_def)
  show ?thesis
    using at_most_one_base_and_overlay
      [OF m, of "[''darkHybrid'', ''satellite'', ''darkHybrid'', ''tomtom'']" "Body None ex_airports"] m
    by simp
qed

text \<open>
  Were there a global \<open>airports\<close>, a call would run to its end: markers recomputed from
  that list, status line updated.
\<close>

lemma changeMapLayer_completes_with_global:
  assumes "map_js s = Some m" and "airports_global s = Some airports"
  shows "fst (changeMapLayer selectedLayer s) = None
       \<and> airportMarkers (snd (changeMapLayer selectedLayer s))
           = map airport_marker_of (filter (band_rule (zoom m)) airports)
       \<and> status (page (snd (changeMapLayer selectedLayer s))) = ''Map layer changed to '' @ selectedLayer"
proof -
  have f: "filter (zoom_filter (zoom m)) airports = filter (band_rule (zoom m)) airports"
    by (simp add: zoom_filter_band_rule cong: filter_cong)
  show ?thesis
    using assms
    by (cases "currentBaseLayer s"; cases "currentOverlayLayer s")
       (simp_all add: changeMapLayer_def stmt_defs remove_if_set_def with_map_def create_on_map_def
          set_currentBaseLayer_def set_currentOverlayLayer_def addAirportMarkers_of_global_def
          addAirportMarkers_def updateStatus_def addLayer_def removeLayer_def Let_def f)
qed

text \<open>
  C6. The claim: every call of \<open>changeMapLayer\<close> runs its four steps to completion, the
  last being the recompute of the airport markers on the full airport list. The code:
  on a page that has its map but no global named \<open>airports\<close> (the sources declare none;
  the list that \<open>initMap\<close> loads is local to it), every call, whatever the selection,
  throws a \<open>ReferenceError\<close> when it comes to the recompute. The layers have been
  exchanged by then; the airport markers and the status line are as before the call.
\<close>

theorem changeMapLayer_throws_at_recompute:
  assumes "map_js s = Some m" and "airports_global s = None"
  shows "fst (changeMapLayer selectedLayer s) = Some (ReferenceError ''airports is not defined'')
       \<and> airportMarkers (snd (changeMapLayer selectedLayer s)) = airportMarkers s
       \<and> page (snd (changeMapLayer selectedLayer s)) = page s"
  using assms
  by (cases "currentBaseLayer s"; cases "currentOverlayLayer s")
     (simp_all add: changeMapLayer_def stmt_defs remove_if_set_def with_map_def create_on_map_def
        set_currentBaseLayer_def set_currentOverlayLayer_def addAirportMarkers_of_global_def Let_def)

theorem changeMapLayer_throws_at_recompute_witness:
  "airports_global ex_loaded = None
   \<and> status (page ex_loaded) = ''Map loaded successfully''
   \<and> fst (changeMapLayer ''satellite'' ex_loaded) = Some (ReferenceError ''airports is not defined'')
   \<and> status (page (snd (changeMapLayer ''satellite'' ex_loaded))) = ''Map loaded successfully''"
proof -
  have l: "ex_loaded =
      ex_state\<lparr>map_js := Some ((ex_map 4)\<lparr>layers :=
                   [\<lparr>lid = Obj 0, kind = MaplibreGL tomtom_style tomtom_attribution\<rparr>, airportMarkers_layer]\<rparr>),
        currentBaseLayer := Some \<lparr>lid = Obj 0, kind = MaplibreGL tomtom_style tomtom_attribution\<rparr>,
        airportMarkers := [\<lparr>am_lat = 47.45, am_lng = -122.31, am_popup = ''KSEA''\<rparr>],
        page := ex_page\<lparr>status := ''Map loaded successfully'', status_dot_background := ''#10b981'',
                        status_text := ''Succeeded''\<rparr>,
        requests := [(GET, ''airports.json'')],
        next_id := 1\<rparr>"
    by (simp add: ex_loaded_def initMap_def initMap_start_def initMap_loaded_def stmt_defs
          with_map_def create_on_map_def set_currentBaseLayer_def addAirportMarkers_def
          updateStatus_def addLayer_def airportMarkers_layer_def ex_state_def page_load_def
          ex_map_def ex_airports_def zoom_filter_def airport_marker_of_def Let_def)
  have m: "map_js ex_loaded = Some ((ex_map 4)\<lparr>layers :=
                   [\<lparr>lid = Obj 0, kind = MaplibreGL tomtom_style tomtom_attribution\<rparr>, airportMarkers_layer]\<rparr>)"
    and g: "airports_global ex_loaded = None"
    and p: "status (page ex_loaded) = ''Map loaded successfully''"
    by (simp_all add: l ex_state_def page_load_def)
  show ?thesis
    using changeMapLayer_throws_at_recompute [OF m g, of "''satellite''"] g p by simp
qed

section \<open>The pollers and the live link\<close>

text \<open>
  C4 (as amended). While the socket exists and reports itself connected, a tick of
  \<open>fetchAircraftDataEnhanced\<close> completes normally and leaves the whole state as it was:
  it issues no request.
\<close>

theorem enhanced_poll_noop_when_socket_connected:
  assumes "socket_connected s"
  shows "fetchAircraftDataEnhanced info positionResponse typeResponse s = (None, s)"
  using assms by (simp add: fetchAircraftDataEnhanced_def normal_def)

theorem enhanced_poll_noop_when_socket_connected_witness:
  "socket_connected ex_connected
   \<and> fetchAircraftDataEnhanced ex_info (Body None ex_reading) (Body None (Some ''C172'')) ex_connected
       = (None, ex_connected)"
proof -
  have c: "socket_connected ex_connected"
    by (simp add: socket_connected_def ex_connected_def)
  show ?thesis
    using enhanced_poll_noop_when_socket_connected [OF c] c by simp
qed

text \<open>
  C4 as stated fails for \<open>fetchAircraftData\<close>, which a timer invokes as well: on the
  example page, with the socket connected and \<open>isSimConnectConnected\<close> true, one tick
  issues both requests.
\<close>

theorem plain_poll_fetches_while_connected_counterexample:
  "socket_connected ex_connected \<and> isSimConnectConnected ex_connected
   \<and> requests ex_connected = []
   \<and> requests (snd (fetchAircraftData '''' (Body None ex_reading) (Body None (Some ''C172'')) ex_connected))
       = [(GET, ''/aircraft/position''), (GET, ''/aircraft/type'')]"
  by (simp add: fetchAircraftData_def stmt_defs socket_connected_def ex_connected_def
        ex_mapped_def ex_state_def page_load_def)

text \<open>
  C9 (as amended). A cycle of \<open>fetchAircraftData\<close> never throws, changes nothing but the
  console and the list of issued requests, and writes exactly the lines of
  \<open>poll_lines\<close>: for each response that arrives one line, an error line when the
  \<open>error\<close> property of the body is truthy and a success line otherwise (also when the
  property is there but falsy); for a failure one line, after which nothing more is
  requested and nothing is retried. A cycle of \<open>fetchAircraftDataEnhanced\<close> never throws
  either, and the state it leaves is exactly \<open>enhanced_cycle\<close>: each body is treated as
  one of error and success by the truthiness of its \<open>error\<close> property, a reading is
  applied and a type stored only on success, a failure ends the cycle. When it polls, it
  issues the same requests as the plain poller, and the lines it writes under its own
  labels are exactly those of \<open>poll_lines\<close>, each once (the position handler writes its
  lines in between, under other labels). A position body whose \<open>error\<close> is truthy adds
  its one error line and changes nothing else before the type is requested.
\<close>

theorem poll_cycle_outcomes:
  "fetchAircraftData base r1 r2 s =
     (None, s\<lparr>console := console s @ poll_lines plain_labels r1 r2,
              requests := requests s @ poll_requests base r1\<rparr>)
   \<and> fst (fetchAircraftDataEnhanced info r1 r2 s) = None
   \<and> (\<not> socket_connected s \<and> isSimConnectConnected s \<longrightarrow>
        requests (snd (fetchAircraftDataEnhanced info r1 r2 s)) = requests s @ poll_requests '''' r1
        \<and> (\<exists>mid. console (snd (fetchAircraftDataEnhanced info r1 r2 s))
                   = console s @ take 1 (poll_lines enhanced_labels r1 r2) @ mid
                       @ drop 1 (poll_lines enhanced_labels r1 r2)))
   \<and> fetchAircraftDataEnhanced info r1 r2 s = (None, enhanced_cycle info r1 r2 s)
   \<and> (\<not> socket_connected s \<and> isSimConnectConnected s \<longrightarrow>
        poller_lines enhanced_labels
          (drop (length (console s)) (console (snd (fetchAircraftDataEnhanced info r1 r2 s))))
        = poll_lines enhanced_labels r1 r2)
   \<and> (\<not> socket_connected s \<and> isSimConnectConnected s \<and> truthy (error_of err) \<longrightarrow>
        snd (fetchAircraftDataEnhanced info (Body err d) r2 s) =
          (let s3 = s\<lparr>requests := requests s @ [(GET, ''/aircraft/position''), (GET, ''/aircraft/type'')],
                      console := console s @ [(Err, ''Position Error:'', ArgValue (error_of err))]\<rparr>
           in case r2 of Failed e \<Rightarrow> failure_logged e s3 | Body err' t \<Rightarrow> type_handled err' t s3))"
proof -
  have lines: "poller_lines enhanced_labels
          (drop (length (console s)) (console (snd (fetchAircraftDataEnhanced info r1 r2 s))))
        = poll_lines enhanced_labels r1 r2"
    if "\<not> socket_connected s" and "isSimConnectConnected s"
    using enhanced_cycle_lines [OF that, of info r1 r2] by (simp add: enhanced_poll_exact)
  show ?thesis
    using plain_poll_result [of base r1 r2 s] enhanced_poll_never_throws [of info r1 r2 s]
      enhanced_poll_result [of s info r1 r2] enhanced_poll_exact [of info r1 r2 s] lines
      enhanced_error_body [of s err info d r2]
    by blast
qed

theorem poll_cycle_outcomes_witness:
  "\<not> socket_connected ex_polling \<and> isSimConnectConnected ex_polling
   \<and> fst (fetchAircraftDataEnhanced ex_info (Body (Some (JStr ''no simulator'')) ex_reading)
             (Failed (TypeError ''Failed to fetch'')) ex_polling) = None
   \<and> snd (fetchAircraftDataEnhanced ex_info (Body (Some (JStr ''no simulator'')) ex_reading)
             (Failed (TypeError ''Failed to fetch'')) ex_polling)
       = ex_polling\<lparr>requests := [(GET, ''/aircraft/position''), (GET, ''/aircraft/type'')],
                     console := [(Err, ''Position Error:'', ArgValue (JStr ''no simulator'')),
                                 (Err, ''Legacy fetch error:'', ArgError (TypeError ''Failed to fetch''))]\<rparr>"
proof -
  have c: "\<not> socket_connected ex_polling" "isSimConnectConnected ex_polling"
    "requests ex_polling = []" "console ex_polling = []"
    by (simp_all add: socket_connected_def ex_polling_def ex_mapped_def ex_state_def page_load_def)
  note t = poll_cycle_outcomes [of "''''" "Body (Some (JStr ''no simulator'')) ex_reading"
        "Failed (TypeError ''Failed to fetch'')" ex_polling ex_info "Some (JStr ''no simulator'')" ex_reading]
  from t have f: "fst (fetchAircraftDataEnhanced ex_info (Body (Some (JStr ''no simulator'')) ex_reading)
             (Failed (TypeError ''Failed to fetch'')) ex_polling) = None"
    by blast
  note e = t [THEN conjunct2, THEN conjunct2, THEN conjunct2, THEN conjunct2, THEN conjunct2]
  from e c(1,2) have "snd (fetchAircraftDataEnhanced ex_info (Body (Some (JStr ''no simulator'')) ex_reading)
             (Failed (TypeError ''Failed to fetch'')) ex_polling)
       = failure_logged (TypeError ''Failed to fetch'')
           (ex_polling\<lparr>requests := requests ex_polling @ [(GET, ''/aircraft/position''), (GET, ''/aircraft/type'')],
                      console := console ex_polling @ [(Err, ''Position Error:'', ArgValue (JStr ''no simulator''))]\<rparr>)"
    by (simp add: Let_def)
  then have "snd (fetchAircraftDataEnhanced ex_info (Body (Some (JStr ''no simulator'')) ex_reading)
             (Failed (TypeError ''Failed to fetch'')) ex_polling)
       = ex_polling\<lparr>requests := [(GET, ''/aircraft/position''), (GET, ''/aircraft/type'')],
                     console := [(Err, ''Position Error:'', ArgValue (JStr ''no simulator'')),
                                 (Err, ''Legacy fetch error:'', ArgError (TypeError ''Failed to fetch''))]\<rparr>"
    by (simp add: failure_logged_def logged_def c(3,4))
  with f c(1,2) show ?thesis by simp
qed

text \<open>
  C9 as stated fails where it lets the presence of the \<open>error\<close> property decide: a
  position body whose \<open>error\<close> property is present but empty is logged as a success.
\<close>

theorem poll_cycle_error_presence_counterexample:
  "console (snd (fetchAircraftData '''' (Body (Some (JStr '''')) ex_reading) (Body None (Some ''C172''))
                  ex_state))
     = [(Log, ''Position:'', ArgPosition ex_reading), (Log, ''Aircraft Type:'', ArgType (Some ''C172''))]"
  by (simp add: fetchAircraftData_def stmt_defs ex_state_def page_load_def)

section \<open>Applying a position reading\<close>

text \<open>
  C7. With auto-update on, on a page that has the altitude input and a map, handling the
  example reading \<open>{latitude: 47.6, longitude: -122.3, altitude: 1000, heading: 90}\<close>
  leaves \<open>1000\<close> in the altitude input and makes \<open>aircraftMarker\<close> a marker at that
  position whose icon is rotated by 0 degrees. The marker is on the map (given that no
  layer object on the map is newer than the page's object counter).
\<close>

theorem example_reading_shown:
  assumes "autoUpdateEnabled s" and "altField (page s) \<noteq> None" and "map_js s \<noteq> None"
  shows "altField (page (snd (handleRealtimePositionUpdate info ex_reading s))) = Some ''1000''
       \<and> map_option kind (aircraftMarker (snd (handleRealtimePositionUpdate info ex_reading s)))
           = Some (Marker 47.6 (-122.3) (DivIcon (Some 0)))
       \<and> (ids_created s \<longrightarrow>
            Marker 47.6 (-122.3) (DivIcon (Some 0))
              \<in> set (markers_on_map (snd (handleRealtimePositionUpdate info ex_reading s))))"
proof -
  let ?t = "snd (handleRealtimePositionUpdate info ex_reading s)"
  from assms(3) obtain m where m: "map_js s = Some m" by auto
  from assms(2) obtain old where old: "altField (page s) = Some old" by auto
  have w: "update_state ?t = core_effect ex_reading (update_state s)"
    by (rule handle_core_effect [OF assms(1)])
  have e: "core_effect ex_reading (update_state s) =
            ((fixed_text (Some 47.6) (latField (page s)), fixed_text (Some (-122.3)) (lngField (page s)),
              Some ''1000'', rounded_text (Some 90) (hdgField (page s))),
             stored_data ex_reading (aircraftData s),
             Some (new_marker (next_id s) 47.6 (-122.3) (Some 90)),
             Some (attach (new_marker (next_id s) 47.6 (-122.3) (Some 90)) (unmark (aircraftMarker s) (layers m))),
             Suc (next_id s))"
    by (simp add: core_effect_def update_state_def shown_fields_def ex_reading_def m old
          rounded_text_def rounded_1000 Let_def)
  from w have alt: "altField (page ?t) = Some ''1000''"
    and mk: "aircraftMarker ?t = Some (new_marker (next_id s) 47.6 (-122.3) (Some 90))"
    and ls: "map_option layers (map_js ?t)
              = Some (attach (new_marker (next_id s) 47.6 (-122.3) (Some 90)) (unmark (aircraftMarker s) (layers m)))"
    unfolding e by (simp_all add: update_state_def shown_fields_def)
  have k: "kind (new_marker (next_id s) 47.6 (-122.3) (Some 90)) = Marker 47.6 (-122.3) (DivIcon (Some 0))"
    by simp
  have on: "Marker 47.6 (-122.3) (DivIcon (Some 0)) \<in> set (markers_on_map ?t)" if "ids_created s"
  proof -
    from that m have "fresh_for (next_id s) (layers m)"
      by (simp add: ids_created_fresh)
    then have "fresh_for (next_id s) (unmark (aircraftMarker s) (layers m))"
      by (rule fresh_unmark)
    from attach_fresh [OF this order_refl] ls
    have "map_option layers (map_js ?t)
            = Some (unmark (aircraftMarker s) (layers m) @ [new_marker (next_id s) 47.6 (-122.3) (Some 90)])"
      by simp
    then have "new_marker (next_id s) 47.6 (-122.3) (Some 90) \<in> set (attached ?t)"
      by (auto simp: attached_def split: option.splits)
    then have "kind (new_marker (next_id s) 47.6 (-122.3) (Some 90)) \<in> kind ` set (attached ?t)"
      by (rule imageI)
    then have "Marker 47.6 (-122.3) (DivIcon (Some 0)) \<in> kind ` set (attached ?t)"
      by (simp only: k)
    then show ?thesis by (simp add: markers_on_map_def)
  qed
  from alt mk k on show ?thesis by simp
qed

theorem example_reading_shown_witness:
  "autoUpdateEnabled (ex_mapped 4)
   \<and> altField (page (ex_mapped 4)) = Some ''''
   \<and> altField (page (snd (handleRealtimePositionUpdate ex_info ex_reading (ex_mapped 4)))) = Some ''1000''
   \<and> map_option kind (aircraftMarker (snd (handleRealtimePositionUpdate ex_info ex_reading (ex_mapped 4))))
       = Some (Marker 47.6 (-122.3) (DivIcon (Some 0)))
   \<and> markers_on_map (ex_mapped 4) = []
   \<and> Marker 47.6 (-122.3) (DivIcon (Some 0))
       \<in> set (markers_on_map (snd (handleRealtimePositionUpdate ex_info ex_reading (ex_mapped 4))))"
proof -
  have i: "ids_created (ex_mapped 4)"
    by (simp add: ids_created_def attached_def ex_mapped_def ex_map_def airportMarkers_layer_def)
  have n: "markers_on_map (ex_mapped 4) = []"
    by (simp add: markers_on_map_def attached_def ex_mapped_def ex_map_def airportMarkers_layer_def)
  show ?thesis
    using example_reading_shown [of "ex_mapped 4" ex_info] i n
    by (simp add: ex_mapped_def ex_state_def page_load_def ex_page_def)
qed

text \<open>
  C8. Handling the same reading twice in a row leaves what a position update is for (the
  four position inputs, the stored \<open>aircraftData\<close>, the marker that \<open>aircraftMarker\<close>
  refers to and the markers drawn on the map, object identities aside) as handling it
  once does. This holds for every reading, also one that makes the handler catch an
  exception, for every behaviour of \<open>showAircraftInfo\<close>, and for every state in which no
  layer object on the map is newer than the page's object counter.
\<close>

theorem position_update_idempotent:
  assumes "ids_created s"
  shows "aircraft_view (snd (handleRealtimePositionUpdate info pd
                          (snd (handleRealtimePositionUpdate info pd s))))
       = aircraft_view (snd (handleRealtimePositionUpdate info pd s))"
proof (cases "autoUpdateEnabled s")
  case False
  then show ?thesis by (simp add: handleRealtimePositionUpdate_def normal_def)
next
  case True
  let ?t = "snd (handleRealtimePositionUpdate info pd s)"
  have once: "update_state ?t = core_effect pd (update_state s)"
    by (rule handle_core_effect [OF True])
  have "autoUpdateEnabled ?t" using True by (simp add: handle_keeps_toggle)
  then have twice: "update_state (snd (handleRealtimePositionUpdate info pd ?t))
                  = core_effect pd (update_state ?t)"
    by (rule handle_core_effect)
  obtain a b c d ad mk ls n where w: "update_state s = ((a, b, c, d), ad, mk, ls, n)"
    by (cases "update_state s") auto
  then have c: "map_option layers (map_js s) = ls" "next_id s = n"
    by (simp_all add: update_state_def)
  have "fresh_for (next_id s) (case map_option layers (map_js s) of None \<Rightarrow> [] | Some L \<Rightarrow> L)"
    using assms by (simp only: ids_created_fresh)
  then have "fresh_for n (case ls of None \<Rightarrow> [] | Some L \<Rightarrow> L)"
    by (simp only: c)
  from core_effect_idem [OF this, of pd a b c d ad mk] show ?thesis
    by (simp add: aircraft_view_of once twice w)
qed

theorem position_update_idempotent_witness:
  "ids_created (ex_mapped 4)
   \<and> aircraft_view (snd (handleRealtimePositionUpdate ex_info ex_reading
                      (snd (handleRealtimePositionUpdate ex_info ex_reading (ex_mapped 4)))))
       = aircraft_view (snd (handleRealtimePositionUpdate ex_info ex_reading (ex_mapped 4)))
   \<and> aircraft_view (snd (handleRealtimePositionUpdate ex_info ex_reading (ex_mapped 4)))
       \<noteq> aircraft_view (ex_mapped 4)"
proof -
  let ?t = "snd (handleRealtimePositionUpdate ex_info ex_reading (ex_mapped 4))"
  have i: "ids_created (ex_mapped 4)"
    by (simp add: ids_created_def attached_def ex_mapped_def ex_map_def airportMarkers_layer_def)
  have a: "autoUpdateEnabled (ex_mapped 4)"
    by (simp add: ex_mapped_def ex_state_def page_load_def)
  have w: "update_state ?t = core_effect ex_reading (update_state (ex_mapped 4))"
    by (rule handle_core_effect [OF a])
  have "fst (snd (core_effect ex_reading (update_state (ex_mapped 4)))) = stored_data ex_reading ex_data"
    by (simp add: core_effect_def update_state_def shown_fields_def
          ex_mapped_def ex_state_def page_load_def ex_page_def ex_reading_def Let_def)
  then have "fst (snd (update_state ?t)) = stored_data ex_reading ex_data"
    by (simp only: w)
  then have "aircraftData ?t = stored_data ex_reading ex_data"
    by (simp add: update_state_def)
  then have "ad_altitude (aircraftData ?t) = Some 1000"
    by (simp add: stored_data_def ex_reading_def)
  moreover have "ad_altitude (aircraftData (ex_mapped 4)) = None"
    by (simp add: ex_mapped_def ex_state_def page_load_def ex_data_def)
  ultimately have "aircraftData ?t \<noteq> aircraftData (ex_mapped 4)"
    by auto
  then show ?thesis
    using position_update_idempotent [OF i, of ex_info ex_reading] i
    by (simp add: aircraft_view_def)
qed

end
